theory Spec2Isabelle
  imports Main "HOL-Library.Sublist" "HOL-Library.Multiset" "HOL-Library.List_Lexorder"
begin

section \<open>Strings\<close>

text \<open>
  A Python \<open>str\<close> is a sequence of Unicode code points; \<open>in\<close>, \<open>+\<close>, \<open>join\<close> and
  comparison all work on code points. The prompts and indicators of the program are
  Japanese, so a string is modelled as the list of its code points. ASCII literals are
  written through \<open>ascii\<close>.
\<close>

type_synonym ustr = "nat list"

definition ascii :: "string \<Rightarrow> ustr" where
  "ascii s = map of_char s"

text \<open>\<open>needle in hay\<close> on strings: \<open>needle\<close> occurs as a contiguous substring.\<close>

fun py_in :: "ustr \<Rightarrow> ustr \<Rightarrow> bool" where
  "py_in needle [] = (needle = [])"
| "py_in needle (c # cs) = (prefix needle (c # cs) \<or> py_in needle cs)"

text \<open>\<open>sep.join(xs)\<close>.\<close>

fun py_join :: "ustr \<Rightarrow> ustr list \<Rightarrow> ustr" where
  "py_join sep [] = []"
| "py_join sep [x] = x"
| "py_join sep (x # y # ys) = x @ sep @ py_join sep (y # ys)"

section \<open>prompts.py\<close>

text \<open>
  Each of the two template literals holds exactly one replacement field,
  \<open>{markdown_content}\<close>, and no other brace. So
  \<open>TEMPLATE.format(markdown_content=md)\<close> is the text before the field, then \<open>md\<close>,
  then the text after the field. The two parts of each template are given below, one
  number per character of the literal in \<open>prompts.py\<close>.
\<close>

definition STRUCTURED_DATA_EXTRACTION_PROMPT_before :: ustr where
  "STRUCTURED_DATA_EXTRACTION_PROMPT_before =
     [12354, 12394, 12383, 12399, 12289, 27083, 36896, 21270, 12487, 12540, 12479, 65288, 34920, 12289,
      12481, 12515, 12540, 12488, 12289, 22259, 34920, 12394, 12393, 65289, 12434, 20998, 26512, 12375,
      12289, 24773, 22577, 12434, 27424, 33853, 12373, 12379, 12378, 12395, 33258, 28982, 35328, 35486,
      12398, 27083, 36896, 21270, 12486, 12461, 12473, 12488, 12395, 22793, 25563, 12377, 12427, 23554,
      38272, 23478, 12391, 12377, 12290, 10, 10]
   @ [20197, 19979, 12398, 77, 97, 114, 107, 100, 111, 119, 110, 24418, 24335, 12398,
      12487, 12540, 12479, 12434, 12289, 42, 42, 24773, 22577, 12398, 27424, 33853, 12394, 12367,
      42, 42, 12289, 27083, 36896, 21270, 12373, 12428, 12383, 82, 65, 71, 65288, 82,
      101, 116, 114, 105, 101, 118, 97, 108, 32, 65, 117, 103, 109, 101,
      110, 116, 101, 100, 32, 71, 101, 110, 101, 114, 97, 116, 105, 111,
      110, 65289, 29992, 12398, 12486, 12461, 12473, 12488, 12487, 12540, 12479, 12395, 22793, 25563,
      12375, 12390, 12367, 12384, 12373, 12356, 12290, 10, 10]
   @ [35, 35, 32, 20966, 29702, 25163, 38918, 10, 10]
   @ [35, 35, 35, 32, 49, 46, 32, 23450, 32681, 12501, 12455, 12540, 12474, 65306,
      36600, 12392, 27083, 36896, 12398, 23450, 32681, 10]
   @ [12414, 12378, 12289, 12371, 12398, 12487, 12540, 12479, 12398, 27083, 25104, 35201, 32032, 12434,
      25972, 29702, 12375, 12390, 12367, 12384, 12373, 12356, 65306, 10, 10]
   @ [45, 32, 42, 42, 32294, 36600, 65288, 34892, 65289, 12398, 38917, 30446, 42, 42,
      65306, 12459, 12486, 12468, 12522, 12289, 22823, 38917, 30446, 12289, 20013, 38917, 30446, 12394,
      12393, 12398, 38542, 23652, 27083, 36896, 12434, 12377, 12409, 12390, 25277, 20986, 12375, 12390,
      12367, 12384, 12373, 12356, 10]
   @ [45, 32, 42, 42, 27178, 36600, 65288, 21015, 65289, 12398, 38917, 30446, 42, 42,
      65306, 21015, 35211, 20986, 12375, 12364, 22810, 27573, 38542, 23652, 12395, 12394, 12387, 12390,
      12356, 12427, 22580, 21512, 12289, 12381, 12398, 38542, 23652, 12434, 12377, 12409, 12390, 26126,
      25991, 21270, 12375, 12390, 12367, 12384, 12373, 12356, 10]
   @ [45, 32, 42, 42, 20961, 20363, 12539, 35352, 21495, 12398, 30906, 35469, 42, 42,
      65306, 12300, 9675, 12301, 12300, 215, 12301, 12300, 9651, 12301, 12300, 45, 12301, 12300,
      10003, 12301, 12300, 10007, 12301, 12394, 12393, 12398, 35352, 21495, 12420, 12289, 25968, 20516,
      12289, 12486, 12461, 12473, 12488, 12364, 20309, 12434, 24847, 21619, 12377, 12427, 12363, 12289,
      12487, 12540, 12479, 20869, 12363, 12425, 25277, 20986, 12375, 12390, 12367, 12384, 12373, 12356,
      10]
   @ [45, 32, 42, 42, 12487, 12540, 12479, 27083, 36896, 12398, 29305, 23450, 42, 42,
      65306, 34920, 24418, 24335, 12289, 12522, 12473, 12488, 24418, 24335, 12289, 12501, 12525, 12540,
      22259, 12289, 32068, 32340, 22259, 12394, 12393, 12289, 12393, 12398, 12424, 12358, 12394, 27083,
      36896, 12434, 25345, 12388, 12487, 12540, 12479, 12363, 12434, 26126, 30906, 12395, 12375, 12390,
      12367, 12384, 12373, 12356, 10, 10]
   @ [35, 35, 35, 32, 50, 46, 32, 25277, 20986, 12501, 12455, 12540, 12474, 65306,
      20840, 12487, 12540, 12479, 12398, 36880, 27425, 35352, 36848, 10]
   @ [12487, 12540, 12479, 12398, 21508, 35201, 32032, 12434, 20197, 19979, 12398, 12501, 12457, 12540,
      12510, 12483, 12488, 12391, 26360, 12365, 20986, 12375, 12390, 12367, 12384, 12373, 12356, 12290,
      42, 42, 12487, 12540, 12479, 12364, 31354, 27396, 12420, 12300, 45, 12301, 12391, 12354,
      12387, 12390, 12418, 30465, 30053, 12375, 12394, 12356, 12391, 12367, 12384, 12373, 12356, 12290,
      42, 42, 10, 10]
   @ [42, 42, 12304, 35352, 36848, 12501, 12457, 12540, 12510, 12483, 12488, 12305, 42, 42,
      10]
   @ [96, 96, 96, 10]
   @ [91, 34892, 38917, 30446, 12497, 12473, 93, 32, 40, 20363, 58, 32, 12459, 12486,
      12468, 12522, 65, 32, 62, 32, 12469, 12502, 12459, 12486, 12468, 12522, 66, 32,
      62, 32, 38917, 30446, 67, 41, 10]
   @ [91, 21015, 38917, 30446, 12497, 12473, 93, 32, 40, 20363, 58, 32, 26465, 20214,
      49, 32, 62, 32, 26465, 20214, 50, 32, 62, 32, 35443, 32048, 26465, 20214,
      51, 41, 10]
   @ [91, 12475, 12523, 20869, 23481, 93, 32, 40, 20363, 58, 32, 9675, 65306, 21487,
      33021, 32, 47, 32, 215, 65306, 19981, 21487, 32, 47, 32, 25968, 20516, 32,
      47, 32, 12486, 12461, 12473, 12488, 32, 47, 32, 31354, 27396, 41, 10]
   @ [91, 36969, 29992, 12373, 12428, 12427, 27880, 37320, 93, 32, 40, 20363, 58, 32,
      27880, 49, 12434, 36969, 29992, 32, 47, 32, 35036, 36275, 35500, 26126, 12354, 12426,
      41, 10]
   @ [96, 96, 96, 10, 10]
   @ [42, 42, 37325, 35201, 65306, 42, 42, 10]
   @ [45, 32, 12377, 12409, 12390, 12398, 12475, 12523, 65288, 20132, 24046, 28857, 65289, 12395,
      12388, 12356, 12390, 35352, 36848, 12375, 12390, 12367, 12384, 12373, 12356, 10]
   @ [45, 32, 31354, 27396, 12420, 12495, 12452, 12501, 12531, 12300, 45, 12301, 12418, 26126,
      35352, 12375, 12390, 12367, 12384, 12373, 12356, 10]
   @ [45, 32, 35079, 25968, 34892, 12420, 35079, 25968, 21015, 12395, 12414, 12383, 12364, 12427,
      12475, 12523, 12398, 22580, 21512, 12289, 12381, 12398, 31684, 22258, 12434, 26126, 35352, 12375,
      12390, 12367, 12384, 12373, 12356, 10]
   @ [45, 32, 38542, 23652, 27083, 36896, 12364, 12354, 12427, 22580, 21512, 12289, 12300, 62,
      12301, 35352, 21495, 12391, 35242, 23376, 38306, 20418, 12434, 34920, 29694, 12375, 12390, 12367,
      12384, 12373, 12356, 10, 10]
   @ [35, 35, 35, 32, 51, 46, 32, 32113, 21512, 12501, 12455, 12540, 12474, 65306,
      27880, 37320, 12539, 35036, 36275, 24773, 22577, 12398, 35542, 29702, 21512, 25104, 10]
   @ [12487, 12540, 12479, 12395, 38306, 36899, 12377, 12427, 27880, 37320, 12289, 33050, 27880, 12289,
      35036, 36275, 35500, 26126, 12434, 12377, 12409, 12390, 12522, 12473, 12488, 12450, 12483, 12503,
      12375, 12289, 20197, 19979, 12434, 26126, 30906, 12395, 12375, 12390, 12367, 12384, 12373, 12356,
      65306, 10, 10]
   @ [45, 32, 42, 42, 27880, 37320, 12398, 20869, 23481, 42, 42, 65306, 21508, 27880,
      37320, 12364, 20309, 12434, 35500, 26126, 12375, 12390, 12356, 12427, 12363, 10]
   @ [45, 32, 42, 42, 36969, 29992, 23550, 35937, 42, 42, 65306, 12393, 12398, 38917,
      30446, 12289, 12393, 12398, 12475, 12523, 12395, 36969, 29992, 12373, 12428, 12427, 12363, 10]
   @ [45, 32, 42, 42, 26465, 20214, 12539, 20363, 22806, 42, 42, 65306, 29305, 23450,
      12398, 26465, 20214, 19979, 12391, 12398, 12415, 36969, 29992, 12373, 12428, 12427, 22580, 21512,
      12289, 12381, 12398, 26465, 20214, 12434, 26126, 35352, 10]
   @ [45, 32, 42, 42, 20381, 23384, 38306, 20418, 42, 42, 65306, 35079, 25968, 12398,
      27880, 37320, 12364, 32068, 12415, 21512, 12431, 12373, 12427, 22580, 21512, 12289, 12381, 12398,
      38306, 20418, 24615, 12434, 35500, 26126, 10, 10]
   @ [35, 35, 35, 32, 52, 46, 32, 35201, 32004, 12501, 12455, 12540, 12474, 65306,
      33258, 28982, 35328, 35486, 12395, 12424, 12427, 20840, 20307, 35299, 35500, 10]
   @ [19978, 35352, 12398, 12487, 12540, 12479, 12395, 22522, 12389, 12365, 12289, 20154, 38291, 12392,
      65, 73, 12364, 29702, 35299, 12375, 12420, 12377, 12356, 25991, 31456, 12391, 20840, 20307,
      12434, 35299, 35500, 12375, 12390, 12367, 12384, 12373, 12356, 65306, 10, 10]
   @ [45, 32, 42, 42, 12487, 12540, 12479, 12398, 27010, 35201, 42, 42, 65306, 12371,
      12398, 12487, 12540, 12479, 12364, 20309, 12434, 34920, 12375, 12390, 12356, 12427, 12363, 10]
   @ [45, 32, 42, 42, 20027, 35201, 12394, 12523, 12540, 12523, 12539, 12497, 12479, 12540,
      12531, 42, 42, 65306, 12487, 12540, 12479, 12363, 12425, 35501, 12415, 21462, 12428, 12427,
      20027, 35201, 12394, 35215, 21063, 12420, 20670, 21521, 10]
   @ [45, 32, 42, 42, 20363, 22806, 26465, 20214, 42, 42, 65306, 29305, 27530, 12394,
      12465, 12540, 12473, 12289, 20363, 22806, 30340, 12394, 26465, 20214, 12364, 12354, 12427, 22580,
      21512, 12399, 24375, 35519, 10]
   @ [45, 32, 42, 42, 37325, 35201, 12394, 21046, 32004, 42, 42, 65306, 29305, 23450,
      12398, 26465, 20214, 19979, 12391, 12398, 12415, 26377, 21177, 12394, 24773, 22577, 12364, 12354,
      12427, 22580, 21512, 12399, 26126, 35352, 10]
   @ [45, 32, 42, 42, 38306, 36899, 24615, 12539, 20381, 23384, 38306, 20418, 42, 42,
      65306, 38917, 30446, 38291, 12398, 38306, 36899, 24615, 12420, 20381, 23384, 38306, 20418, 10,
      10]
   @ [42, 42, 20986, 21147, 24418, 24335, 65306, 42, 42, 10]
   @ [45, 32, 31623, 26465, 26360, 12365, 24418, 24335, 12391, 20986, 21147, 12375, 12390, 12367,
      12384, 12373, 12356, 65288, 12414, 12392, 12417, 12378, 12395, 12289, 35443, 32048, 12434, 20445,
      25345, 65289, 10]
   @ [45, 32, 82, 65, 71, 12471, 12473, 12486, 12512, 12391, 26908, 32034, 12375, 12420,
      12377, 12356, 12424, 12358, 12289, 12461, 12540, 12527, 12540, 12489, 12434, 26126, 30906, 12395,
      21547, 12417, 12390, 12367, 12384, 12373, 12356, 10]
   @ [45, 32, 26326, 26151, 12394, 34920, 29694, 12434, 36991, 12369, 12289, 20855, 20307, 30340,
      12395, 35352, 36848, 12375, 12390, 12367, 12384, 12373, 12356, 10, 10]
   @ [35, 35, 35, 32, 53, 46, 32, 26908, 35388, 12501, 12455, 12540, 12474, 65306,
      31934, 24230, 30906, 35469, 10]
   @ [22238, 31572, 12434, 20986, 21147, 12377, 12427, 21069, 12395, 12289, 20197, 19979, 12434, 42,
      42, 51, 22238, 42, 42, 20877, 30906, 35469, 12375, 12390, 12367, 12384, 12373, 12356,
      65306, 10, 10]
   @ [49, 46, 32, 42, 42, 24231, 27161, 12398, 30906, 35469, 42, 42, 65306, 32294,
      36600, 12398, 38917, 30446, 21517, 12392, 27178, 36600, 12398, 38917, 30446, 21517, 12364, 27491,
      30906, 12363, 10]
   @ [50, 46, 32, 42, 42, 35352, 21495, 12398, 30906, 35469, 42, 42, 65306, 35352,
      21495, 12420, 12510, 12540, 12459, 12540, 65288, 9675, 12289, 215, 12394, 12393, 65289, 12364,
      20803, 12487, 12540, 12479, 12392, 19968, 33268, 12375, 12390, 12356, 12427, 12363, 10]
   @ [51, 46, 32, 42, 42, 27880, 37320, 12398, 30906, 35469, 42, 42, 65306, 27880,
      37320, 12398, 36969, 29992, 23550, 35937, 12392, 20869, 23481, 12364, 27491, 30906, 12363, 10,
      10]
   @ [12418, 12375, 30683, 30462, 12420, 35492, 12426, 12434, 30330, 35211, 12375, 12383, 22580, 21512,
      12399, 12289, 20462, 27491, 12375, 12390, 12363, 12425, 20986, 21147, 12375, 12390, 12367, 12384,
      12373, 12356, 12290, 10, 10]
   @ [45, 45, 45, 10, 10]
   @ [35, 35, 32, 20837, 21147, 12487, 12540, 12479, 10, 10]
   @ [20197, 19979, 12398, 77, 97, 114, 107, 100, 111, 119, 110, 12487, 12540, 12479,
      12434, 20966, 29702, 12375, 12390, 12367, 12384, 12373, 12356, 65306, 10, 10]"

definition STRUCTURED_DATA_EXTRACTION_PROMPT_after :: ustr where
  "STRUCTURED_DATA_EXTRACTION_PROMPT_after =
     [10, 10]
   @ [45, 45, 45, 10, 10]
   @ [35, 35, 32, 20986, 21147, 10, 10]
   @ [19978, 35352, 12398, 25163, 38918, 12395, 24467, 12387, 12390, 12289, 27083, 36896, 21270, 12373,
      12428, 12383, 82, 65, 71, 29992, 12398, 12486, 12461, 12473, 12488, 12487, 12540, 12479,
      12434, 20986, 21147, 12375, 12390, 12367, 12384, 12373, 12356, 12290]"

definition GENERAL_EXTRACTION_PROMPT_before :: ustr where
  "GENERAL_EXTRACTION_PROMPT_before =
     [20197, 19979, 12398, 77, 97, 114, 107, 100, 111, 119, 110, 24418, 24335, 12398,
      12487, 12540, 12479, 12434, 12289, 82, 65, 71, 65288, 82, 101, 116, 114, 105,
      101, 118, 97, 108, 32, 65, 117, 103, 109, 101, 110, 116, 101, 100,
      32, 71, 101, 110, 101, 114, 97, 116, 105, 111, 110, 65289, 12471, 12473,
      12486, 12512, 12391, 27963, 29992, 12375, 12420, 12377, 12356, 12289, 27083, 36896, 21270, 12373,
      12428, 12383, 33258, 28982, 35328, 35486, 12486, 12461, 12473, 12488, 12395, 22793, 25563, 12375,
      12390, 12367, 12384, 12373, 12356, 12290, 10, 10]
   @ [35, 35, 32, 35201, 20214, 10, 10]
   @ [49, 46, 32, 42, 42, 24773, 22577, 12398, 23436, 20840, 24615, 42, 42, 65306,
      20803, 12487, 12540, 12479, 12398, 24773, 22577, 12434, 27424, 33853, 12373, 12379, 12378, 12395,
      22793, 25563, 12375, 12390, 12367, 12384, 12373, 12356, 10]
   @ [50, 46, 32, 42, 42, 27083, 36896, 12398, 20445, 25345, 42, 42, 65306, 38542,
      23652, 27083, 36896, 12289, 12522, 12473, 12488, 12289, 12475, 12463, 12471, 12519, 12531, 12394,
      12393, 12398, 27083, 36896, 12434, 26126, 30906, 12395, 20445, 12387, 12390, 12367, 12384, 12373,
      12356, 10]
   @ [51, 46, 32, 42, 42, 26908, 32034, 21487, 33021, 24615, 42, 42, 65306, 37325,
      35201, 12394, 12461, 12540, 12527, 12540, 12489, 12434, 26126, 30906, 12395, 21547, 12417, 12289,
      26908, 32034, 12375, 12420, 12377, 12356, 24418, 24335, 12395, 12375, 12390, 12367, 12384, 12373,
      12356, 10]
   @ [52, 46, 32, 42, 42, 26126, 30906, 24615, 42, 42, 65306, 26326, 26151, 12394,
      34920, 29694, 12434, 36991, 12369, 12289, 20855, 20307, 30340, 12395, 35352, 36848, 12375, 12390,
      12367, 12384, 12373, 12356, 10]
   @ [53, 46, 32, 42, 42, 31623, 26465, 26360, 12365, 24418, 24335, 42, 42, 65306,
      12414, 12392, 12417, 12377, 12366, 12378, 12289, 35443, 32048, 12434, 31623, 26465, 26360, 12365,
      12391, 20445, 25345, 12375, 12390, 12367, 12384, 12373, 12356, 10, 10]
   @ [35, 35, 32, 20966, 29702, 25163, 38918, 10, 10]
   @ [49, 46, 32, 42, 42, 12487, 12540, 12479, 12398, 20998, 39006, 42, 42, 65306,
      12371, 12398, 12487, 12540, 12479, 12364, 20309, 12434, 34920, 12375, 12390, 12356, 12427, 12363,
      65288, 25991, 26360, 12289, 35500, 26126, 12289, 25163, 38918, 12289, 35215, 21063, 12394, 12393,
      65289, 12434, 26126, 30906, 12395, 12377, 12427, 10]
   @ [50, 46, 32, 42, 42, 20027, 35201, 12394, 24773, 22577, 12398, 25277, 20986, 42,
      42, 65306, 37325, 35201, 12394, 12509, 12452, 12531, 12488, 12289, 12523, 12540, 12523, 12289,
      25163, 38918, 12289, 23450, 32681, 12394, 12393, 12434, 25277, 20986, 12377, 12427, 10]
   @ [51, 46, 32, 42, 42, 35443, 32048, 12398, 23637, 38283, 42, 42, 65306, 21508,
      38917, 30446, 12395, 12388, 12356, 12390, 12289, 35443, 32048, 24773, 22577, 12434, 28431, 12425,
      12373, 12378, 35352, 36848, 12377, 12427, 10]
   @ [52, 46, 32, 42, 42, 38306, 36899, 24615, 12398, 26126, 35352, 42, 42, 65306,
      38917, 30446, 38291, 12398, 38306, 36899, 24615, 12420, 20381, 23384, 38306, 20418, 12364, 12354,
      12428, 12400, 26126, 35352, 12377, 12427, 10]
   @ [53, 46, 32, 42, 42, 35036, 36275, 24773, 22577, 12398, 32113, 21512, 42, 42,
      65306, 27880, 37320, 12289, 20363, 22806, 12289, 26465, 20214, 12394, 12393, 12434, 36969, 20999,
      12395, 32113, 21512, 12377, 12427, 10, 10]
   @ [45, 45, 45, 10, 10]
   @ [35, 35, 32, 20837, 21147, 12487, 12540, 12479, 10, 10]"

definition GENERAL_EXTRACTION_PROMPT_after :: ustr where
  "GENERAL_EXTRACTION_PROMPT_after =
     [10, 10]
   @ [45, 45, 45, 10, 10]
   @ [35, 35, 32, 20986, 21147, 10, 10]
   @ [19978, 35352, 12398, 35201, 20214, 12392, 25163, 38918, 12395, 24467, 12387, 12390, 12289, 82,
      65, 71, 29992, 12398, 27083, 36896, 21270, 12486, 12461, 12473, 12488, 12434, 20986, 21147,
      12375, 12390, 12367, 12384, 12373, 12356, 12290]"

definition STRUCTURED_DATA_EXTRACTION_PROMPT_format :: "ustr \<Rightarrow> ustr" where
  "STRUCTURED_DATA_EXTRACTION_PROMPT_format markdown_content =
     STRUCTURED_DATA_EXTRACTION_PROMPT_before @ markdown_content @
     STRUCTURED_DATA_EXTRACTION_PROMPT_after"

definition GENERAL_EXTRACTION_PROMPT_format :: "ustr \<Rightarrow> ustr" where
  "GENERAL_EXTRACTION_PROMPT_format markdown_content =
     GENERAL_EXTRACTION_PROMPT_before @ markdown_content @ GENERAL_EXTRACTION_PROMPT_after"

text \<open>
  The indicator list of \<open>get_prompt_for_data\<close>, in source order: \<open>|\<close>, \<open>---\<close>,
  \<open><table>\<close>, \<open><tr>\<close>, \<open><td>\<close>, and the Japanese words for vertical axis
  (U+7E26 U+8EF8), horizontal axis (U+6A2A U+8EF8), row (U+884C), column (U+5217) and
  cell (U+30BB U+30EB).
\<close>

definition table_indicators :: "ustr list" where
  "table_indicators =
     [ascii ''|'', ascii ''---'', ascii ''<table>'', ascii ''<tr>'', ascii ''<td>'',
      [32294, 36600], [27178, 36600], [34892], [21015], [12475, 12523]]"

text \<open>
  \<open>use_table_prompt\<close> is \<open>None\<close>, \<open>True\<close> or \<open>False\<close>. On \<open>None\<close> the function
  rebinds its own local variable to the outcome of the scan; the caller's variable is not
  touched.
\<close>

definition get_prompt_for_data :: "ustr \<Rightarrow> bool option \<Rightarrow> ustr" where
  "get_prompt_for_data markdown_content use_table_prompt =
     (let use_table_prompt' =
            (case use_table_prompt of
               None \<Rightarrow> list_ex (\<lambda>indicator. py_in indicator markdown_content) table_indicators
             | Some b \<Rightarrow> b)
      in if use_table_prompt'
         then STRUCTURED_DATA_EXTRACTION_PROMPT_format markdown_content
         else GENERAL_EXTRACTION_PROMPT_format markdown_content)"

section \<open>Paths\<close>

text \<open>
  A \<open>pathlib.Path\<close> on a POSIX system: whether it starts at the root, and its
  components. \<open>Path(s)\<close> splits \<open>s\<close> at \<open>/\<close> and drops empty components and
  \<open>.\<close> components.
\<close>

record path =
  is_absolute :: bool
  parts :: "ustr list"

fun split_on :: "nat \<Rightarrow> ustr \<Rightarrow> ustr list" where
  "split_on sep [] = [[]]"
| "split_on sep (c # cs) =
     (if c = sep then [] # split_on sep cs
      else (case split_on sep cs of [] \<Rightarrow> [[c]] | x # xs \<Rightarrow> (c # x) # xs))"

definition Path :: "ustr \<Rightarrow> path" where
  "Path s = \<lparr>is_absolute = (case s of [] \<Rightarrow> False | c # _ \<Rightarrow> c = 47),
            parts = filter (\<lambda>x. x \<noteq> [] \<and> x \<noteq> [46]) (split_on 47 s)\<rparr>"

text \<open>\<open>str(p)\<close>.\<close>

definition path_str :: "path \<Rightarrow> ustr" where
  "path_str p =
     (if parts p = [] then (if is_absolute p then [47] else [46])
      else (if is_absolute p then [47] else []) @ py_join [47] (parts p))"

text \<open>\<open>p.name\<close>: the last component, or the empty string when there is none.\<close>

definition path_name :: "path \<Rightarrow> ustr" where
  "path_name p = (if parts p = [] then [] else last (parts p))"

text \<open>\<open>s.rfind(c)\<close>, with \<open>None\<close> for Python's \<open>-1\<close>.\<close>

definition rfind :: "nat \<Rightarrow> ustr \<Rightarrow> nat option" where
  "rfind c s = (case filter (\<lambda>i. s ! i = c) (rev [0..<length s]) of
                  [] \<Rightarrow> None | i # _ \<Rightarrow> Some i)"

text \<open>
  \<open>p.stem\<close>: the name without its last suffix; a leading or trailing dot does not start
  a suffix.
\<close>

definition path_stem :: "path \<Rightarrow> ustr" where
  "path_stem p =
     (let name = path_name p
      in case rfind 46 name of
           None \<Rightarrow> name
         | Some i \<Rightarrow> if 0 < i \<and> i + 1 < length name then take i name else name)"

text \<open>\<open>d / s\<close>: an absolute right operand replaces the left one.\<close>

definition path_join :: "path \<Rightarrow> ustr \<Rightarrow> path" where
  "path_join d s =
     (let q = Path s in if is_absolute q then q else d\<lparr>parts := parts d @ parts q\<rparr>)"

section \<open>Exceptions, the file system and the two remote services\<close>

text \<open>
  Every exception that reaches the pipeline is an \<open>Exception\<close>; \<open>str_exc\<close> is
  \<open>str(e)\<close>, the message.
\<close>

datatype exn =
    FileNotFoundError ustr
  | FileExistsError ustr
  | IsADirectoryError ustr
  | IndexError ustr
  | BackendError ustr

fun str_exc :: "exn \<Rightarrow> ustr" where
  "str_exc (FileNotFoundError m) = m"
| "str_exc (FileExistsError m) = m"
| "str_exc (IsADirectoryError m) = m"
| "str_exc (IndexError m) = m"
| "str_exc (BackendError m) = m"

datatype node = File ustr | Dir

text \<open>
  What the parsing service returns for one file: the page documents that
  \<open>get_markdown_documents(split_by_page=True)\<close> yields (their \<open>text\<close>), and the page
  number the service itself reports in the job's metadata.
\<close>

record job_result =
  markdown_documents :: "ustr list"
  job_pages :: nat

datatype parse_call = ParseOne ustr | ParseMany "ustr list"

record llm_request =
  req_model :: ustr
  req_max_tokens :: int
  req_content :: ustr

text \<open>A reply of the language model: the text of each content block, and the usage.\<close>

record message =
  msg_content :: "ustr list"
  usage_input_tokens :: int
  usage_output_tokens :: int

text \<open>
  The state that the program reads and changes: the files, and the requests made so far to
  the two remote services. Console output is not modelled.
\<close>

record world =
  fs :: "path \<Rightarrow> node option"
  parse_calls :: "parse_call list"
  llm_calls :: "llm_request list"

text \<open>
  The surroundings that the program does not change: the two services, each an arbitrary
  function of the state at the time of the request and of the request, raising (\<open>Inl\<close>)
  or answering; the model name of the \<open>NLPProcessor\<close>; and \<open>BASE_DIR\<close>, the directory
  of \<open>config.py\<close>.
\<close>

record env =
  parser_parse :: "world \<Rightarrow> ustr \<Rightarrow> exn + job_result"
  parser_parse_batch :: "world \<Rightarrow> ustr list \<Rightarrow> exn + job_result list"
  parser_aparse :: "world \<Rightarrow> ustr \<Rightarrow> exn + job_result"
  parser_aparse_batch :: "world \<Rightarrow> ustr list \<Rightarrow> exn + job_result list"
  client_messages_create :: "world \<Rightarrow> llm_request \<Rightarrow> exn + message"
  self_model :: ustr
  BASE_DIR :: path

definition path_exists :: "world \<Rightarrow> path \<Rightarrow> bool" where
  "path_exists w p = (fs w p \<noteq> None)"

text \<open>
  \<open>d.mkdir(parents=True, exist_ok=True)\<close> raises when \<open>d\<close> is a file, and
  \<open>open(p, "w")\<close> followed by \<open>write\<close> raises when \<open>p\<close> is a directory. Other
  failures of the operating system (permissions, a full disk) are not modelled, and the
  parents of a directory are not recorded.
\<close>

definition mkdir_parents :: "path \<Rightarrow> world \<Rightarrow> exn + world" where
  "mkdir_parents d w =
     (case fs w d of
        Some (File _) \<Rightarrow>
          Inl (FileExistsError (ascii ''[Errno 17] File exists: '' @ path_str d))
      | _ \<Rightarrow> Inr (w\<lparr>fs := (fs w)(d \<mapsto> Dir)\<rparr>))"

definition write_text :: "path \<Rightarrow> ustr \<Rightarrow> world \<Rightarrow> exn + world" where
  "write_text p text w =
     (case fs w p of
        Some Dir \<Rightarrow>
          Inl (IsADirectoryError (ascii ''[Errno 21] Is a directory: '' @ path_str p))
      | _ \<Rightarrow> Inr (w\<lparr>fs := (fs w)(p \<mapsto> File text)\<rparr>))"

section \<open>config.py\<close>

definition OUTPUT_DIR :: "env \<Rightarrow> path" where
  "OUTPUT_DIR e = path_join (BASE_DIR e) (ascii ''output'')"

definition MARKDOWN_DIR :: "env \<Rightarrow> path" where
  "MARKDOWN_DIR e = path_join (OUTPUT_DIR e) (ascii ''markdown'')"

definition NATURAL_LANGUAGE_DIR :: "env \<Rightarrow> path" where
  "NATURAL_LANGUAGE_DIR e = path_join (OUTPUT_DIR e) (ascii ''natural_language'')"

text \<open>
  \<open>LLAMA_PARSE_CONFIG["page_separator"]\<close>, the string \<open>\n\n---\n\n\<close>. It is handed to
  the constructor of the parsing client and read nowhere else.
\<close>

definition LLAMA_PARSE_CONFIG_page_separator :: ustr where
  "LLAMA_PARSE_CONFIG_page_separator = [10, 10, 45, 45, 45, 10, 10]"

definition CLAUDE_MAX_TOKENS :: int where
  "CLAUDE_MAX_TOKENS = 8000"

section \<open>pdf\_parser.py\<close>

record parsed_data =
  filename :: ustr
  markdown :: ustr
  page_count :: nat
  result :: job_result

text \<open>
  \<open>parse_single_pdf\<close>. The separator of the join is the literal \<open>"\n\n"\<close>.
\<close>

definition parse_single_pdf :: "env \<Rightarrow> path \<Rightarrow> world \<Rightarrow> (exn + parsed_data) \<times> world" where
  "parse_single_pdf e pdf_path w =
     (if \<not> path_exists w pdf_path
      then (Inl (FileNotFoundError (ascii ''PDF file not found: '' @ path_str pdf_path)), w)
      else
        let w1 = w\<lparr>parse_calls := parse_calls w @ [ParseOne (path_str pdf_path)]\<rparr>
        in case parser_parse e w (path_str pdf_path) of
             Inl x \<Rightarrow> (Inl x, w1)
           | Inr res \<Rightarrow>
               let docs = markdown_documents res;
                   full_markdown = py_join [10, 10] docs
               in (Inr \<lparr>filename = path_name pdf_path, markdown = full_markdown,
                        page_count = length docs, result = res\<rparr>, w1))"

text \<open>The loop that verifies that all files exist: the first missing path raises.\<close>

fun verify_all_exist :: "world \<Rightarrow> path list \<Rightarrow> exn + unit" where
  "verify_all_exist w [] = Inr ()"
| "verify_all_exist w (pdf_path # rest) =
     (if \<not> path_exists w pdf_path
      then Inl (FileNotFoundError (ascii ''PDF file not found: '' @ path_str pdf_path))
      else verify_all_exist w rest)"

text \<open>The loop over \<open>zip(pdf_paths, results)\<close>, which stops at the shorter list.\<close>

fun collect_parsed :: "path list \<Rightarrow> job_result list \<Rightarrow> parsed_data list" where
  "collect_parsed (pdf_path # ps) (res # rs) =
     (let docs = markdown_documents res;
          full_markdown = py_join [10, 10] docs
      in \<lparr>filename = path_name pdf_path, markdown = full_markdown,
          page_count = length docs, result = res\<rparr> # collect_parsed ps rs)"
| "collect_parsed _ _ = []"

definition parse_multiple_pdfs ::
  "env \<Rightarrow> path list \<Rightarrow> world \<Rightarrow> (exn + parsed_data list) \<times> world" where
  "parse_multiple_pdfs e pdf_paths w =
     (case verify_all_exist w pdf_paths of
        Inl x \<Rightarrow> (Inl x, w)
      | Inr _ \<Rightarrow>
          let w1 = w\<lparr>parse_calls := parse_calls w @ [ParseMany (map path_str pdf_paths)]\<rparr>
          in case parser_parse_batch e w (map path_str pdf_paths) of
               Inl x \<Rightarrow> (Inl x, w1)
             | Inr results \<Rightarrow> (Inr (collect_parsed pdf_paths results), w1))"

text \<open>
  The two awaitable variants. The \<open>await\<close> of the remote call is the one point where
  another task may run; run on its own, each variant is the following function.
\<close>

definition parse_single_pdf_async ::
  "env \<Rightarrow> path \<Rightarrow> world \<Rightarrow> (exn + parsed_data) \<times> world" where
  "parse_single_pdf_async e pdf_path w =
     (if \<not> path_exists w pdf_path
      then (Inl (FileNotFoundError (ascii ''PDF file not found: '' @ path_str pdf_path)), w)
      else
        let w1 = w\<lparr>parse_calls := parse_calls w @ [ParseOne (path_str pdf_path)]\<rparr>
        in case parser_aparse e w (path_str pdf_path) of
             Inl x \<Rightarrow> (Inl x, w1)
           | Inr res \<Rightarrow>
               let docs = markdown_documents res;
                   full_markdown = py_join [10, 10] docs
               in (Inr \<lparr>filename = path_name pdf_path, markdown = full_markdown,
                        page_count = length docs, result = res\<rparr>, w1))"

definition parse_multiple_pdfs_async ::
  "env \<Rightarrow> path list \<Rightarrow> world \<Rightarrow> (exn + parsed_data list) \<times> world" where
  "parse_multiple_pdfs_async e pdf_paths w =
     (case verify_all_exist w pdf_paths of
        Inl x \<Rightarrow> (Inl x, w)
      | Inr _ \<Rightarrow>
          let w1 = w\<lparr>parse_calls := parse_calls w @ [ParseMany (map path_str pdf_paths)]\<rparr>
          in case parser_aparse_batch e w (map path_str pdf_paths) of
               Inl x \<Rightarrow> (Inl x, w1)
             | Inr results \<Rightarrow> (Inr (collect_parsed pdf_paths results), w1))"

text \<open>\<open>save_markdown\<close>; \<open>output_dir\<close> is \<open>None\<close> or a directory.\<close>

definition save_markdown ::
  "env \<Rightarrow> parsed_data \<Rightarrow> path option \<Rightarrow> world \<Rightarrow> (exn + path) \<times> world" where
  "save_markdown e parsed output_dir w =
     (let output_dir' = (case output_dir of None \<Rightarrow> MARKDOWN_DIR e | Some d \<Rightarrow> d)
      in case mkdir_parents output_dir' w of
           Inl x \<Rightarrow> (Inl x, w)
         | Inr w1 \<Rightarrow>
             let name = path_stem (Path (filename parsed)) @ ascii ''.md'';
                 output_path = path_join output_dir' name
             in case write_text output_path (markdown parsed) w1 of
                  Inl x \<Rightarrow> (Inl x, w1)
                | Inr w2 \<Rightarrow> (Inr output_path, w2))"

text \<open>
  \<open>get_all_pdfs_in_directory\<close>. \<open>scandir d\<close> is the list of the names of the entries
  of directory \<open>d\<close>, in the order in which the file system enumerates them (empty when
  \<open>d\<close> is not a directory). The pattern \<open>*.pdf\<close> matches the names that end with
  \<open>.pdf\<close>. \<open>sorted\<close> is a stable sort by the comparison of paths, which compares the
  component lists, each component by code points.
\<close>

definition fnmatch_star_pdf :: "ustr \<Rightarrow> bool" where
  "fnmatch_star_pdf name = suffix (ascii ''.pdf'') name"

definition glob_star_pdf :: "(path \<Rightarrow> ustr list) \<Rightarrow> path \<Rightarrow> path list" where
  "glob_star_pdf scandir directory =
     map (\<lambda>name. directory\<lparr>parts := parts directory @ [name]\<rparr>)
       (filter fnmatch_star_pdf (scandir directory))"

definition path_sort_key :: "path \<Rightarrow> ustr list" where
  "path_sort_key p = (if is_absolute p then [[]] else []) @ parts p"

definition get_all_pdfs_in_directory :: "(path \<Rightarrow> ustr list) \<Rightarrow> path \<Rightarrow> path list" where
  "get_all_pdfs_in_directory scandir directory =
     sort_key path_sort_key (glob_star_pdf scandir directory)"

section \<open>nlp\_processor.py\<close>

record nl_result =
  natural_language :: ustr
  model :: ustr
  input_tokens :: int
  output_tokens :: int
  prompt_type :: ustr
  source_file :: "ustr option"

text \<open>
  \<open>process_markdown\<close>. \<open>max_tokens or config.CLAUDE_MAX_TOKENS\<close> takes the default for
  \<open>None\<close> and for \<open>0\<close>; \<open>if custom_prompt\<close> holds for a string that is not empty;
  \<open>if use_table_prompt\<close> in the last line holds for \<open>True\<close> only, and
  \<open>use_table_prompt\<close> there is still the argument of the call. \<open>content[0]\<close> raises
  on a reply without content.
\<close>

definition process_markdown ::
  "env \<Rightarrow> ustr \<Rightarrow> bool option \<Rightarrow> ustr option \<Rightarrow> int option \<Rightarrow> world
     \<Rightarrow> (exn + nl_result) \<times> world" where
  "process_markdown e markdown_content use_table_prompt custom_prompt max_tokens w =
     (let max_tokens' =
            (case max_tokens of
               None \<Rightarrow> CLAUDE_MAX_TOKENS
             | Some n \<Rightarrow> if n = 0 then CLAUDE_MAX_TOKENS else n);
          custom = (case custom_prompt of None \<Rightarrow> False | Some s \<Rightarrow> s \<noteq> []);
          prompt = (case custom_prompt of
                      None \<Rightarrow> get_prompt_for_data markdown_content use_table_prompt
                    | Some s \<Rightarrow>
                        if s \<noteq> [] then s
                        else get_prompt_for_data markdown_content use_table_prompt);
          request = \<lparr>req_model = self_model e, req_max_tokens = max_tokens',
                     req_content = prompt\<rparr>;
          w1 = w\<lparr>llm_calls := llm_calls w @ [request]\<rparr>
      in case client_messages_create e w request of
           Inl x \<Rightarrow> (Inl x, w1)
         | Inr msg \<Rightarrow>
             (case msg_content msg of
                [] \<Rightarrow> (Inl (IndexError (ascii ''list index out of range'')), w1)
              | response_text # _ \<Rightarrow>
                  (Inr \<lparr>natural_language = response_text,
                        model = self_model e,
                        input_tokens = usage_input_tokens msg,
                        output_tokens = usage_output_tokens msg,
                        prompt_type =
                          (if custom then ascii ''custom''
                           else if use_table_prompt = Some True then ascii ''table''
                           else ascii ''general''),
                        source_file = None\<rparr>, w1)))"

text \<open>\<open>str(n)\<close> for an integer.\<close>

fun str_nat :: "nat \<Rightarrow> ustr" where
  "str_nat n = (if n < 10 then [48 + n] else str_nat (n div 10) @ [48 + n mod 10])"

declare str_nat.simps [simp del]

definition str_int :: "int \<Rightarrow> ustr" where
  "str_int i = (if i < 0 then 45 # str_nat (nat (- i)) else str_nat (nat i))"

text \<open>
  The text that \<open>save_natural_language\<close> writes. Its first line is the title
  \<open># \<close> followed by the eight characters U+81EA U+7136 U+8A00 U+8A9E U+51E6 U+7406 U+7D50
  U+679C.
\<close>

definition output_content :: "nl_result \<Rightarrow> ustr" where
  "output_content processed_data =
     [35, 32, 33258, 28982, 35328, 35486, 20966, 29702, 32080, 26524] @ [10] @
     ascii ''# Model: '' @ model processed_data @ [10] @
     ascii ''# Prompt Type: '' @ prompt_type processed_data @ [10] @
     ascii ''# Input Tokens: '' @ str_int (input_tokens processed_data) @ [10] @
     ascii ''# Output Tokens: '' @ str_int (output_tokens processed_data) @ [10] @
     [10] @
     natural_language processed_data @ [10]"

definition save_natural_language ::
  "env \<Rightarrow> nl_result \<Rightarrow> path option \<Rightarrow> ustr option \<Rightarrow> world \<Rightarrow> (exn + path) \<times> world" where
  "save_natural_language e processed_data output_dir file_name w =
     (let output_dir' = (case output_dir of None \<Rightarrow> NATURAL_LANGUAGE_DIR e | Some d \<Rightarrow> d)
      in case mkdir_parents output_dir' w of
           Inl x \<Rightarrow> (Inl x, w)
         | Inr w1 \<Rightarrow>
             let file_name' =
                   (case file_name of
                      Some f \<Rightarrow> f
                    | None \<Rightarrow>
                        (case source_file processed_data of
                           Some s \<Rightarrow> path_stem (Path s) @ ascii ''_nl.txt''
                         | None \<Rightarrow> ascii ''natural_language_output.txt''));
                 output_path = path_join output_dir' file_name'
             in case write_text output_path (output_content processed_data) w1 of
                  Inl x \<Rightarrow> (Inl x, w1)
                | Inr w2 \<Rightarrow> (Inr output_path, w2))"

section \<open>main.py\<close>

text \<open>The dictionary that \<open>process_single_pdf\<close> returns.\<close>

record pdf_result =
  pdf_file :: ustr
  res_markdown :: ustr
  markdown_path :: "path option"
  res_natural_language :: ustr
  natural_language_path :: "path option"
  res_page_count :: nat
  res_model :: ustr
  res_input_tokens :: int
  res_output_tokens :: int

text \<open>
  An entry of the list that a batch returns: the dictionary of a document that went
  through, or the dictionary with the keys \<open>pdf_file\<close> and \<open>error\<close>.
\<close>

datatype result_dict = Success pdf_result | Failure ustr ustr

fun dict_pdf_file :: "result_dict \<Rightarrow> ustr" where
  "dict_pdf_file (Success r) = pdf_file r"
| "dict_pdf_file (Failure name _) = name"

fun has_error :: "result_dict \<Rightarrow> bool" where
  "has_error (Success _) = False"
| "has_error (Failure _ _) = True"

text \<open>
  The statements of \<open>process_single_pdf\<close> after the parsing step, which are the same in
  \<open>process_single_pdf_async\<close>: save the markdown if asked, convert, save the natural
  language if asked, build the dictionary. An exception of any step ends the document.
\<close>

definition convert_and_save ::
  "env \<Rightarrow> path \<Rightarrow> bool option \<Rightarrow> bool \<Rightarrow> bool \<Rightarrow> parsed_data \<Rightarrow> world
     \<Rightarrow> (exn + pdf_result) \<times> world" where
  "convert_and_save e pdf_path use_table_prompt save_md save_nl parsed w =
     (case (if save_md
            then (case save_markdown e parsed None w of
                    (Inl x, w1) \<Rightarrow> (Inl x, w1)
                  | (Inr p, w1) \<Rightarrow> (Inr (Some p), w1))
            else (Inr None, w)) of
        (Inl x, w1) \<Rightarrow> (Inl x, w1)
      | (Inr md_path, w1) \<Rightarrow>
          (case process_markdown e (markdown parsed) use_table_prompt None None w1 of
             (Inl x, w2) \<Rightarrow> (Inl x, w2)
           | (Inr nl, w2) \<Rightarrow>
               (case (if save_nl
                      then (case save_natural_language e
                                   (nl\<lparr>source_file := Some (path_name pdf_path)\<rparr>) None
                                   (Some (path_stem pdf_path @ ascii ''_nl.txt'')) w2 of
                              (Inl x, w3) \<Rightarrow> (Inl x, w3)
                            | (Inr p, w3) \<Rightarrow> (Inr (Some p), w3))
                      else (Inr None, w2)) of
                  (Inl x, w3) \<Rightarrow> (Inl x, w3)
                | (Inr nl_path, w3) \<Rightarrow>
                    (Inr \<lparr>pdf_file = path_name pdf_path,
                          res_markdown = markdown parsed,
                          markdown_path = md_path,
                          res_natural_language = natural_language nl,
                          natural_language_path = nl_path,
                          res_page_count = page_count parsed,
                          res_model = model nl,
                          res_input_tokens = input_tokens nl,
                          res_output_tokens = output_tokens nl\<rparr>, w3))))"

definition process_single_pdf ::
  "env \<Rightarrow> path \<Rightarrow> bool option \<Rightarrow> bool \<Rightarrow> bool \<Rightarrow> world \<Rightarrow> (exn + pdf_result) \<times> world" where
  "process_single_pdf e pdf_path use_table_prompt save_md save_nl w =
     (case parse_single_pdf e pdf_path w of
        (Inl x, w1) \<Rightarrow> (Inl x, w1)
      | (Inr parsed, w1) \<Rightarrow>
          convert_and_save e pdf_path use_table_prompt save_md save_nl parsed w1)"

text \<open>\<open>process_single_pdf_async\<close>, run without another task in between.\<close>

definition process_single_pdf_async ::
  "env \<Rightarrow> path \<Rightarrow> bool option \<Rightarrow> bool \<Rightarrow> bool \<Rightarrow> world \<Rightarrow> (exn + pdf_result) \<times> world" where
  "process_single_pdf_async e pdf_path use_table_prompt save_md save_nl w =
     (case parse_single_pdf_async e pdf_path w of
        (Inl x, w1) \<Rightarrow> (Inl x, w1)
      | (Inr parsed, w1) \<Rightarrow>
          convert_and_save e pdf_path use_table_prompt save_md save_nl parsed w1)"

text \<open>
  \<open>process_multiple_pdfs\<close>: the loop appends one entry per document to \<open>results\<close>,
  the dictionary of the document or, in the \<open>except\<close> branch, the failure entry.
\<close>

fun process_multiple_pdfs_loop ::
  "env \<Rightarrow> bool option \<Rightarrow> bool \<Rightarrow> bool \<Rightarrow> path list \<Rightarrow> result_dict list \<Rightarrow> world
     \<Rightarrow> result_dict list \<times> world" where
  "process_multiple_pdfs_loop e use_table_prompt save_md save_nl [] results w = (results, w)"
| "process_multiple_pdfs_loop e use_table_prompt save_md save_nl (pdf_path # rest) results w =
     (case process_single_pdf e pdf_path use_table_prompt save_md save_nl w of
        (Inr r, w1) \<Rightarrow>
          process_multiple_pdfs_loop e use_table_prompt save_md save_nl rest
            (results @ [Success r]) w1
      | (Inl x, w1) \<Rightarrow>
          process_multiple_pdfs_loop e use_table_prompt save_md save_nl rest
            (results @ [Failure (path_name pdf_path) (str_exc x)]) w1)"

definition process_multiple_pdfs ::
  "env \<Rightarrow> path list \<Rightarrow> bool option \<Rightarrow> bool \<Rightarrow> bool \<Rightarrow> world \<Rightarrow> result_dict list \<times> world" where
  "process_multiple_pdfs e pdf_paths use_table_prompt save_md save_nl w =
     process_multiple_pdfs_loop e use_table_prompt save_md save_nl pdf_paths [] w"

text \<open>
  \<open>process_multiple_pdfs_async\<close>. Each document is a task; a task suspends once, at the
  \<open>await\<close> of the remote parsing call, so it runs in two steps: up to the request, and
  from the reply to its end. The reply is fixed when the request is made.
\<close>

datatype task = NotStarted | Awaiting "exn + job_result" | Done "exn + pdf_result"

definition task_first_step :: "env \<Rightarrow> path \<Rightarrow> world \<Rightarrow> task \<times> world" where
  "task_first_step e pdf_path w =
     (if \<not> path_exists w pdf_path
      then (Done (Inl (FileNotFoundError
                         (ascii ''PDF file not found: '' @ path_str pdf_path))), w)
      else (Awaiting (parser_aparse e w (path_str pdf_path)),
            w\<lparr>parse_calls := parse_calls w @ [ParseOne (path_str pdf_path)]\<rparr>))"

definition task_second_step ::
  "env \<Rightarrow> path \<Rightarrow> bool option \<Rightarrow> bool \<Rightarrow> bool \<Rightarrow> exn + job_result \<Rightarrow> world
     \<Rightarrow> task \<times> world" where
  "task_second_step e pdf_path use_table_prompt save_md save_nl reply w =
     (case reply of
        Inl x \<Rightarrow> (Done (Inl x), w)
      | Inr res \<Rightarrow>
          let docs = markdown_documents res;
              full_markdown = py_join [10, 10] docs;
              parsed = \<lparr>filename = path_name pdf_path, markdown = full_markdown,
                        page_count = length docs, result = res\<rparr>
          in case convert_and_save e pdf_path use_table_prompt save_md save_nl parsed w of
               (r, w1) \<Rightarrow> (Done r, w1))"

text \<open>The event loop runs the next step of task \<open>i\<close>.\<close>

definition run_task_step ::
  "env \<Rightarrow> path list \<Rightarrow> bool option \<Rightarrow> bool \<Rightarrow> bool \<Rightarrow> task list \<times> world \<Rightarrow> nat
     \<Rightarrow> task list \<times> world" where
  "run_task_step e pdf_paths use_table_prompt save_md save_nl state i =
     (case state of (tasks, w) \<Rightarrow>
        if i < length tasks \<and> i < length pdf_paths
        then (case tasks ! i of
                NotStarted \<Rightarrow>
                  (case task_first_step e (pdf_paths ! i) w of
                     (t, w1) \<Rightarrow> (tasks[i := t], w1))
              | Awaiting reply \<Rightarrow>
                  (case task_second_step e (pdf_paths ! i) use_table_prompt save_md save_nl
                          reply w of
                     (t, w1) \<Rightarrow> (tasks[i := t], w1))
              | Done _ \<Rightarrow> (tasks, w))
        else (tasks, w))"

text \<open>
  The outcome of a task that has ended. \<open>gather\<close> reads it only then; the second
  equation is never used, as \<open>gather_tasks_done\<close> below shows.
\<close>

fun task_result :: "task \<Rightarrow> exn + pdf_result" where
  "task_result (Done r) = r"
| "task_result _ = Inl (BackendError (ascii ''task not finished''))"

text \<open>
  The outcome of a task whose first step runs in state \<open>wa\<close> and whose second step, if
  the first one has made the request, runs in state \<open>wb\<close>.
\<close>

definition task_run ::
  "env \<Rightarrow> path \<Rightarrow> bool option \<Rightarrow> bool \<Rightarrow> bool \<Rightarrow> world \<Rightarrow> world \<Rightarrow> exn + pdf_result" where
  "task_run e pdf_path use_table_prompt save_md save_nl wa wb =
     (case fst (task_first_step e pdf_path wa) of
        Awaiting reply \<Rightarrow>
          task_result
            (fst (task_second_step e pdf_path use_table_prompt save_md save_nl reply wb))
      | t \<Rightarrow> task_result t)"

text \<open>
  The event loop: the state of the tasks and of the world after the loop has run the
  given steps, from the moment at which no task has started.
\<close>

definition event_loop ::
  "env \<Rightarrow> path list \<Rightarrow> bool option \<Rightarrow> bool \<Rightarrow> bool \<Rightarrow> nat list \<Rightarrow> world
     \<Rightarrow> task list \<times> world" where
  "event_loop e pdf_paths use_table_prompt save_md save_nl steps w =
     foldl (run_task_step e pdf_paths use_table_prompt save_md save_nl)
       (replicate (length pdf_paths) NotStarted, w) steps"

text \<open>
  \<open>asyncio.gather(*tasks, return_exceptions=True)\<close>. The order in which the event loop
  runs the steps of the tasks is not fixed by the program: \<open>schedule\<close> is any list of task
  numbers, and after it the loop runs what is left of every task, in index order, since
  \<open>gather\<close> returns only when all tasks have ended. The result list has the outcome of
  task \<open>i\<close> at index \<open>i\<close>, an exception or a dictionary.
\<close>

definition gather_steps :: "path list \<Rightarrow> nat list \<Rightarrow> nat list" where
  "gather_steps pdf_paths schedule =
     schedule @ [0..<length pdf_paths] @ [0..<length pdf_paths]"

definition asyncio_gather ::
  "env \<Rightarrow> path list \<Rightarrow> bool option \<Rightarrow> bool \<Rightarrow> bool \<Rightarrow> nat list \<Rightarrow> world
     \<Rightarrow> (exn + pdf_result) list \<times> world" where
  "asyncio_gather e pdf_paths use_table_prompt save_md save_nl schedule w =
     (case event_loop e pdf_paths use_table_prompt save_md save_nl
             (gather_steps pdf_paths schedule) w of
        (tasks, w1) \<Rightarrow> (map task_result tasks, w1))"

text \<open>
  What a task can be after the event loop has run \<open>len\<close> steps, where \<open>ws i\<close> is
  the state of the world after \<open>i\<close> steps: not started, waiting for the reply to the
  request that its first step made in the state of an earlier moment, or done with the
  outcome of a run whose steps were made in the states of two earlier moments.
\<close>

inductive task_inv ::
  "env \<Rightarrow> path \<Rightarrow> bool option \<Rightarrow> bool \<Rightarrow> bool \<Rightarrow> (nat \<Rightarrow> world) \<Rightarrow> nat \<Rightarrow> task \<Rightarrow> bool"
  for e pdf_path use_table_prompt save_md save_nl ws len where
  inv_not_started: "task_inv e pdf_path use_table_prompt save_md save_nl ws len NotStarted"
| inv_awaiting:
    "ia \<le> len \<Longrightarrow> fst (task_first_step e pdf_path (ws ia)) = Awaiting reply \<Longrightarrow>
     task_inv e pdf_path use_table_prompt save_md save_nl ws len (Awaiting reply)"
| inv_done:
    "ia \<le> ib \<Longrightarrow> ib \<le> len \<Longrightarrow>
     task_inv e pdf_path use_table_prompt save_md save_nl ws len
       (Done (task_run e pdf_path use_table_prompt save_md save_nl (ws ia) (ws ib)))"

text \<open>The loop over \<open>zip(pdf_paths, results)\<close> that turns exceptions into entries.\<close>

fun processed_results :: "path list \<Rightarrow> (exn + pdf_result) list \<Rightarrow> result_dict list" where
  "processed_results (pdf_path # ps) (r # rs) =
     (case r of
        Inl x \<Rightarrow> Failure (path_name pdf_path) (str_exc x)
      | Inr d \<Rightarrow> Success d) # processed_results ps rs"
| "processed_results _ _ = []"

definition process_multiple_pdfs_async ::
  "env \<Rightarrow> path list \<Rightarrow> bool option \<Rightarrow> bool \<Rightarrow> bool \<Rightarrow> nat list \<Rightarrow> world
     \<Rightarrow> result_dict list \<times> world" where
  "process_multiple_pdfs_async e pdf_paths use_table_prompt save_md save_nl schedule w =
     (case asyncio_gather e pdf_paths use_table_prompt save_md save_nl schedule w of
        (results, w1) \<Rightarrow> (processed_results pdf_paths results, w1))"









section \<open>What the specification says, where it differs from the code\<close>

text \<open>
  The full text as the specification describes it: the page texts joined with the
  blank-line, dash-line, blank-line marker.
\<close>

definition spec_full_text :: "ustr list \<Rightarrow> ustr" where
  "spec_full_text pages = py_join LLAMA_PARSE_CONFIG_page_separator pages"

text \<open>
  The natural-language file as the specification describes it: four header lines that
  carry, in this order, the model, the prompt type, the input tokens and the output
  tokens, and after them the body and nothing else (a final line feed is allowed).
\<close>

definition spec_four_line_header :: "nl_result \<Rightarrow> ustr \<Rightarrow> bool" where
  "spec_four_line_header processed_data text =
     (case split_on 10 text of
        l1 # l2 # l3 # l4 # body \<Rightarrow>
          py_in (model processed_data) l1 \<and>
          py_in (prompt_type processed_data) l2 \<and>
          py_in (str_int (input_tokens processed_data)) l3 \<and>
          py_in (str_int (output_tokens processed_data)) l4 \<and>
          (py_join [10] body = natural_language processed_data \<or>
           py_join [10] body = natural_language processed_data @ [10])
      | _ \<Rightarrow> False)"


section \<open>A small concrete setting\<close>

text \<open>
  Two PDF files exist; the parsing service answers with two pages for every file but
  \<open>bad.pdf\<close>, for which it raises, and it reports seven pages in its metadata; the
  language model answers with one block of text.
\<close>

definition example_job :: job_result where
  "example_job = \<lparr>markdown_documents = [ascii ''a|b'', ascii ''c''], job_pages = 7\<rparr>"

definition example_parse :: "ustr \<Rightarrow> exn + job_result" where
  "example_parse s =
     (if s = ascii ''bad.pdf'' then Inl (BackendError (ascii ''boom'')) else Inr example_job)"

definition example_parse_batch :: "ustr list \<Rightarrow> exn + job_result list" where
  "example_parse_batch ss = Inr (map (\<lambda>s. example_job) ss)"

definition example_message :: message where
  "example_message =
     \<lparr>msg_content = [ascii ''text''], usage_input_tokens = 11, usage_output_tokens = 22\<rparr>"

definition example_nl_result :: nl_result where
  "example_nl_result =
     \<lparr>natural_language = ascii ''text'', model = ascii ''claude'', input_tokens = 11,
      output_tokens = 22, prompt_type = ascii ''general'', source_file = None\<rparr>"

definition example_env :: env where
  "example_env =
     \<lparr>parser_parse = (\<lambda>w. example_parse),
      parser_parse_batch = (\<lambda>w. example_parse_batch),
      parser_aparse = (\<lambda>w. example_parse),
      parser_aparse_batch = (\<lambda>w. example_parse_batch),
      client_messages_create = (\<lambda>w request. Inr example_message),
      self_model = ascii ''claude'',
      BASE_DIR = Path (ascii ''/app'')\<rparr>"

definition example_world :: world where
  "example_world =
     \<lparr>fs = [Path (ascii ''a.pdf'') \<mapsto> File [], Path (ascii ''bad.pdf'') \<mapsto> File [],
             Path (ascii ''b.pdf'') \<mapsto> File []],
      parse_calls = [], llm_calls = []\<rparr>"

section \<open>Facts about strings and the concrete setting\<close>

lemmas example_simps =
  example_env_def example_world_def example_parse_def example_parse_batch_def
  example_job_def example_message_def example_nl_result_def Path_def ascii_def
  path_str_def path_name_def path_exists_def Let_def

lemma py_in_iff: "py_in needle hay \<longleftrightarrow> (\<exists>pre post. hay = pre @ needle @ post)"
proof (induction hay)
  case Nil
  then show ?case by auto
next
  case (Cons c cs)
  show ?case
  proof
    assume "py_in needle (c # cs)"
    then consider "prefix needle (c # cs)" | "py_in needle cs" by auto
    then show "\<exists>pre post. c # cs = pre @ needle @ post"
    proof cases
      case 1
      then obtain post where "c # cs = needle @ post" by (auto simp: prefix_def)
      then have "c # cs = [] @ needle @ post" by simp
      then show ?thesis by blast
    next
      case 2
      with Cons.IH obtain pre post where "cs = pre @ needle @ post" by blast
      then have "c # cs = (c # pre) @ needle @ post" by simp
      then show ?thesis by blast
    qed
  next
    assume "\<exists>pre post. c # cs = pre @ needle @ post"
    then obtain pre post where e: "c # cs = pre @ needle @ post" by blast
    show "py_in needle (c # cs)"
    proof (cases pre)
      case Nil
      with e have "prefix needle (c # cs)" by (simp add: prefix_def)
      then show ?thesis by simp
    next
      case (Cons p ps)
      with e have "cs = ps @ needle @ post" by simp
      with Cons.IH have "py_in needle cs" by blast
      then show ?thesis by simp
    qed
  qed
qed

lemma structured_head:
  "hd (STRUCTURED_DATA_EXTRACTION_PROMPT_format md) = 12354"
  by (simp add: STRUCTURED_DATA_EXTRACTION_PROMPT_format_def
      STRUCTURED_DATA_EXTRACTION_PROMPT_before_def)

lemma general_head:
  "hd (GENERAL_EXTRACTION_PROMPT_format md) = 20197"
  by (simp add: GENERAL_EXTRACTION_PROMPT_format_def GENERAL_EXTRACTION_PROMPT_before_def)

lemma templates_differ:
  "STRUCTURED_DATA_EXTRACTION_PROMPT_format md \<noteq> GENERAL_EXTRACTION_PROMPT_format md'"
proof
  assume "STRUCTURED_DATA_EXTRACTION_PROMPT_format md = GENERAL_EXTRACTION_PROMPT_format md'"
  then have "hd (STRUCTURED_DATA_EXTRACTION_PROMPT_format md) =
             hd (GENERAL_EXTRACTION_PROMPT_format md')" by simp
  then show False by (simp add: structured_head general_head)
qed

lemma list_ex_indicators:
  "list_ex (\<lambda>indicator. py_in indicator md) table_indicators \<longleftrightarrow>
   (\<exists>indicator\<in>set table_indicators. \<exists>pre post. md = pre @ indicator @ post)"
  by (simp only: list_ex_iff py_in_iff)

lemma example_has_indicator:
  "list_ex (\<lambda>indicator. py_in indicator (ascii ''a|b'')) table_indicators"
  by (simp add: table_indicators_def ascii_def)

lemma example_has_no_indicator:
  "\<not> list_ex (\<lambda>indicator. py_in indicator (ascii ''plain prose'')) table_indicators"
  by (simp add: table_indicators_def ascii_def)

section \<open>The prompt builder\<close>

text \<open>
  C5. With the selector left at \<open>None\<close>, the prompt is a function of the text alone: it is
  the structured template filled with the text when at least one of the ten indicators
  occurs in the text as a substring, and the general template filled with the text when
  none does. The indicators are exactly the ten strings of the source, and the two filled
  templates are never the same string, so the choice can be read off the prompt.
\<close>

theorem auto_detection_by_any_indicator:
  "get_prompt_for_data md None =
     (if \<exists>indicator\<in>set table_indicators. \<exists>pre post. md = pre @ indicator @ post
      then STRUCTURED_DATA_EXTRACTION_PROMPT_format md
      else GENERAL_EXTRACTION_PROMPT_format md) \<and>
   set table_indicators =
     {[124], [45, 45, 45], [60, 116, 97, 98, 108, 101, 62], [60, 116, 114, 62],
      [60, 116, 100, 62], [32294, 36600], [27178, 36600], [34892], [21015], [12475, 12523]} \<and>
   STRUCTURED_DATA_EXTRACTION_PROMPT_format md \<noteq> GENERAL_EXTRACTION_PROMPT_format md"
proof (intro conjI)
  show "get_prompt_for_data md None =
     (if \<exists>indicator\<in>set table_indicators. \<exists>pre post. md = pre @ indicator @ post
      then STRUCTURED_DATA_EXTRACTION_PROMPT_format md
      else GENERAL_EXTRACTION_PROMPT_format md)"
    unfolding get_prompt_for_data_def Let_def option.case list_ex_indicators ..
  show "set table_indicators =
     {[124], [45, 45, 45], [60, 116, 97, 98, 108, 101, 62], [60, 116, 114, 62],
      [60, 116, 100, 62], [32294, 36600], [27178, 36600], [34892], [21015], [12475, 12523]}"
    by (simp add: table_indicators_def ascii_def)
  show "STRUCTURED_DATA_EXTRACTION_PROMPT_format md \<noteq> GENERAL_EXTRACTION_PROMPT_format md"
    by (rule templates_differ)
qed

theorem auto_detection_by_any_indicator_witness:
  "(\<exists>indicator\<in>set table_indicators. \<exists>pre post. ascii ''a|b'' = pre @ indicator @ post) \<and>
   get_prompt_for_data (ascii ''a|b'') None =
     STRUCTURED_DATA_EXTRACTION_PROMPT_format (ascii ''a|b'') \<and>
   \<not> (\<exists>indicator\<in>set table_indicators.
         \<exists>pre post. ascii ''plain prose'' = pre @ indicator @ post) \<and>
   get_prompt_for_data (ascii ''plain prose'') None =
     GENERAL_EXTRACTION_PROMPT_format (ascii ''plain prose'')"
proof -
  have t: "\<exists>indicator\<in>set table_indicators. \<exists>pre post. ascii ''a|b'' = pre @ indicator @ post"
    unfolding list_ex_indicators [symmetric] by (rule example_has_indicator)
  have g: "\<not> (\<exists>indicator\<in>set table_indicators.
               \<exists>pre post. ascii ''plain prose'' = pre @ indicator @ post)"
    unfolding list_ex_indicators [symmetric] by (rule example_has_no_indicator)
  have a: "get_prompt_for_data (ascii ''a|b'') None =
             STRUCTURED_DATA_EXTRACTION_PROMPT_format (ascii ''a|b'')"
    using t auto_detection_by_any_indicator [of "ascii ''a|b''"] by (simp only: if_True)
  have b: "get_prompt_for_data (ascii ''plain prose'') None =
             GENERAL_EXTRACTION_PROMPT_format (ascii ''plain prose'')"
    using g auto_detection_by_any_indicator [of "ascii ''plain prose''"]
    by (simp only: if_False)
  from t a g b show ?thesis by (intro conjI)
qed

text \<open>
  C3. With the selector left at \<open>None\<close> and a text that holds an indicator,
  \<open>process_markdown\<close> sends the structured template to the model and tags the result
  \<open>general\<close>: the tag is computed from the argument of the call, which is still
  \<open>None\<close>.
\<close>

theorem auto_detected_table_prompt_tagged_general:
  "map_sum id prompt_type
     (fst (process_markdown example_env (ascii ''a|b'') None None None example_world)) =
     Inr (ascii ''general'') \<and>
   map req_content
     (llm_calls (snd (process_markdown example_env (ascii ''a|b'') None None None
        example_world))) =
     [STRUCTURED_DATA_EXTRACTION_PROMPT_format (ascii ''a|b'')] \<and>
   STRUCTURED_DATA_EXTRACTION_PROMPT_format (ascii ''a|b'') \<noteq>
     GENERAL_EXTRACTION_PROMPT_format (ascii ''a|b'')"
proof -
  have p: "get_prompt_for_data (ascii ''a|b'') None =
           STRUCTURED_DATA_EXTRACTION_PROMPT_format (ascii ''a|b'')"
    using example_has_indicator by (simp add: get_prompt_for_data_def)
  show ?thesis
    by (simp add: process_markdown_def p templates_differ example_env_def example_world_def
        example_message_def Let_def)
qed

section \<open>The parser adapter\<close>

lemma collect_parsed_markdown:
  "map markdown (collect_parsed ps rs) =
   map (\<lambda>res. py_join [10, 10] (markdown_documents res)) (take (length ps) rs)"
  by (induction ps rs rule: collect_parsed.induct) (simp_all add: Let_def)

lemma collect_parsed_page_count:
  "map page_count (collect_parsed ps rs) =
   map (\<lambda>res. length (markdown_documents res)) (take (length ps) rs)"
  by (induction ps rs rule: collect_parsed.induct) (simp_all add: Let_def)

lemma parse_single_pdf_Inr:
  assumes "parse_single_pdf e p w = (Inr d, w')"
  shows "\<exists>res. parser_parse e w (path_str p) = Inr res \<and>
           d = \<lparr>filename = path_name p, markdown = py_join [10, 10] (markdown_documents res),
                page_count = length (markdown_documents res), result = res\<rparr>"
  using assms by (auto simp: parse_single_pdf_def Let_def split: if_splits sum.splits)

lemma parse_single_pdf_async_Inr:
  assumes "parse_single_pdf_async e p w = (Inr d, w')"
  shows "\<exists>res. parser_aparse e w (path_str p) = Inr res \<and>
           d = \<lparr>filename = path_name p, markdown = py_join [10, 10] (markdown_documents res),
                page_count = length (markdown_documents res), result = res\<rparr>"
  using assms by (auto simp: parse_single_pdf_async_def Let_def split: if_splits sum.splits)

lemma parse_multiple_pdfs_Inr:
  assumes "parse_multiple_pdfs e ps w = (Inr ds, w')"
  shows "\<exists>rs. parser_parse_batch e w (map path_str ps) = Inr rs \<and> ds = collect_parsed ps rs"
  using assms by (auto simp: parse_multiple_pdfs_def Let_def split: sum.splits)

lemma parse_multiple_pdfs_async_Inr:
  assumes "parse_multiple_pdfs_async e ps w = (Inr ds, w')"
  shows "\<exists>rs. parser_aparse_batch e w (map path_str ps) = Inr rs \<and> ds = collect_parsed ps rs"
  using assms by (auto simp: parse_multiple_pdfs_async_def Let_def split: sum.splits)

text \<open>The four parse variants in the concrete setting.\<close>

lemma example_parse_single:
  "parse_single_pdf example_env (Path (ascii ''a.pdf'')) example_world =
     (Inr \<lparr>filename = ascii ''a.pdf'', markdown = [97, 124, 98, 10, 10, 99], page_count = 2,
           result = example_job\<rparr>,
      example_world\<lparr>parse_calls := [ParseOne (ascii ''a.pdf'')]\<rparr>)"
  by (simp add: parse_single_pdf_def example_simps)

lemma example_parse_single_async:
  "parse_single_pdf_async example_env (Path (ascii ''a.pdf'')) example_world =
     (Inr \<lparr>filename = ascii ''a.pdf'', markdown = [97, 124, 98, 10, 10, 99], page_count = 2,
           result = example_job\<rparr>,
      example_world\<lparr>parse_calls := [ParseOne (ascii ''a.pdf'')]\<rparr>)"
  by (simp add: parse_single_pdf_async_def example_simps)

lemma example_parse_multiple:
  "parse_multiple_pdfs example_env [Path (ascii ''a.pdf''), Path (ascii ''b.pdf'')]
     example_world =
     (Inr [\<lparr>filename = ascii ''a.pdf'', markdown = [97, 124, 98, 10, 10, 99], page_count = 2,
            result = example_job\<rparr>,
           \<lparr>filename = ascii ''b.pdf'', markdown = [97, 124, 98, 10, 10, 99], page_count = 2,
            result = example_job\<rparr>],
      example_world\<lparr>parse_calls := [ParseMany [ascii ''a.pdf'', ascii ''b.pdf'']]\<rparr>)"
  by (simp add: parse_multiple_pdfs_def example_simps)

lemma example_parse_multiple_async:
  "parse_multiple_pdfs_async example_env [Path (ascii ''a.pdf''), Path (ascii ''b.pdf'')]
     example_world =
     (Inr [\<lparr>filename = ascii ''a.pdf'', markdown = [97, 124, 98, 10, 10, 99], page_count = 2,
            result = example_job\<rparr>,
           \<lparr>filename = ascii ''b.pdf'', markdown = [97, 124, 98, 10, 10, 99], page_count = 2,
            result = example_job\<rparr>],
      example_world\<lparr>parse_calls := [ParseMany [ascii ''a.pdf'', ascii ''b.pdf'']]\<rparr>)"
  by (simp add: parse_multiple_pdfs_async_def example_simps)

text \<open>
  C4, as the specification states it, fails: for a file of two pages \<open>a|b\<close> and \<open>c\<close>
  the full text is \<open>a|b\<close>, two line feeds, \<open>c\<close>, and not the two pages around the
  blank-line, dash-line, blank-line marker.
\<close>

theorem full_text_dash_separator_counterexample:
  "map_sum id markdown
     (fst (parse_single_pdf example_env (Path (ascii ''a.pdf'')) example_world)) =
     Inr [97, 124, 98, 10, 10, 99] \<and>
   markdown_documents example_job = [[97, 124, 98], [99]] \<and>
   spec_full_text (markdown_documents example_job) =
     [97, 124, 98, 10, 10, 45, 45, 45, 10, 10, 99] \<and>
   map_sum id markdown
     (fst (parse_single_pdf example_env (Path (ascii ''a.pdf'')) example_world)) \<noteq>
     Inr (spec_full_text (markdown_documents example_job))"
proof -
  have "spec_full_text (markdown_documents example_job) =
          [97, 124, 98, 10, 10, 45, 45, 45, 10, 10, 99]"
    by (simp add: spec_full_text_def LLAMA_PARSE_CONFIG_page_separator_def example_job_def
        ascii_def)
  moreover have "markdown_documents example_job = [[97, 124, 98], [99]]"
    by (simp add: example_job_def ascii_def)
  ultimately show ?thesis by (simp add: example_parse_single)
qed

text \<open>
  C4, amended. In each of the four parse variants, the full text of a parsed document is
  the page texts that the service returned for that document, joined with two line feeds
  (one blank line) between consecutive pages; the four variants build it in the same way.
  In a batch, the documents are paired with the results of the service in order.
\<close>

theorem full_text_joins_pages_with_blank_line:
  "(parse_single_pdf e p w = (Inr d, w') \<longrightarrow>
      (\<exists>res. parser_parse e w (path_str p) = Inr res \<and>
             markdown d = py_join [10, 10] (markdown_documents res))) \<and>
   (parse_single_pdf_async e p w = (Inr d, w') \<longrightarrow>
      (\<exists>res. parser_aparse e w (path_str p) = Inr res \<and>
             markdown d = py_join [10, 10] (markdown_documents res))) \<and>
   (parse_multiple_pdfs e ps w = (Inr ds, w') \<longrightarrow>
      (\<exists>rs. parser_parse_batch e w (map path_str ps) = Inr rs \<and>
            map markdown ds =
              map (\<lambda>res. py_join [10, 10] (markdown_documents res)) (take (length ps) rs))) \<and>
   (parse_multiple_pdfs_async e ps w = (Inr ds, w') \<longrightarrow>
      (\<exists>rs. parser_aparse_batch e w (map path_str ps) = Inr rs \<and>
            map markdown ds =
              map (\<lambda>res. py_join [10, 10] (markdown_documents res)) (take (length ps) rs)))"
proof (intro conjI impI)
  assume "parse_single_pdf e p w = (Inr d, w')"
  from parse_single_pdf_Inr [OF this]
  show "\<exists>res. parser_parse e w (path_str p) = Inr res \<and>
             markdown d = py_join [10, 10] (markdown_documents res)" by auto
next
  assume "parse_single_pdf_async e p w = (Inr d, w')"
  from parse_single_pdf_async_Inr [OF this]
  show "\<exists>res. parser_aparse e w (path_str p) = Inr res \<and>
             markdown d = py_join [10, 10] (markdown_documents res)" by auto
next
  assume "parse_multiple_pdfs e ps w = (Inr ds, w')"
  from parse_multiple_pdfs_Inr [OF this]
  show "\<exists>rs. parser_parse_batch e w (map path_str ps) = Inr rs \<and>
            map markdown ds =
              map (\<lambda>res. py_join [10, 10] (markdown_documents res)) (take (length ps) rs)"
    by (auto simp: collect_parsed_markdown)
next
  assume "parse_multiple_pdfs_async e ps w = (Inr ds, w')"
  from parse_multiple_pdfs_async_Inr [OF this]
  show "\<exists>rs. parser_aparse_batch e w (map path_str ps) = Inr rs \<and>
            map markdown ds =
              map (\<lambda>res. py_join [10, 10] (markdown_documents res)) (take (length ps) rs)"
    by (auto simp: collect_parsed_markdown)
qed

theorem full_text_joins_pages_with_blank_line_witness:
  "(\<exists>res. parser_parse example_env example_world (path_str (Path (ascii ''a.pdf''))) = Inr res \<and>
      [97, 124, 98, 10, 10, 99] = py_join [10, 10] (markdown_documents res)) \<and>
   (\<exists>res. parser_aparse example_env example_world (path_str (Path (ascii ''a.pdf''))) = Inr res \<and>
      [97, 124, 98, 10, 10, 99] = py_join [10, 10] (markdown_documents res)) \<and>
   (\<exists>rs. parser_parse_batch example_env example_world
            (map path_str [Path (ascii ''a.pdf''), Path (ascii ''b.pdf'')]) = Inr rs \<and>
      [[97, 124, 98, 10, 10, 99], [97, 124, 98, 10, 10, 99]] =
        map (\<lambda>res. py_join [10, 10] (markdown_documents res)) (take 2 rs)) \<and>
   (\<exists>rs. parser_aparse_batch example_env example_world
            (map path_str [Path (ascii ''a.pdf''), Path (ascii ''b.pdf'')]) = Inr rs \<and>
      [[97, 124, 98, 10, 10, 99], [97, 124, 98, 10, 10, 99]] =
        map (\<lambda>res. py_join [10, 10] (markdown_documents res)) (take 2 rs))"
proof (intro conjI)
  show "\<exists>res. parser_parse example_env example_world (path_str (Path (ascii ''a.pdf''))) =
          Inr res \<and> [97, 124, 98, 10, 10, 99] = py_join [10, 10] (markdown_documents res)"
    using full_text_joins_pages_with_blank_line
      [THEN conjunct1, rule_format, OF example_parse_single] by simp
  show "\<exists>res. parser_aparse example_env example_world (path_str (Path (ascii ''a.pdf''))) =
          Inr res \<and> [97, 124, 98, 10, 10, 99] = py_join [10, 10] (markdown_documents res)"
    using full_text_joins_pages_with_blank_line
      [THEN conjunct2, THEN conjunct1, rule_format, OF example_parse_single_async] by simp
  show "\<exists>rs. parser_parse_batch example_env example_world
            (map path_str [Path (ascii ''a.pdf''), Path (ascii ''b.pdf'')]) = Inr rs \<and>
      [[97, 124, 98, 10, 10, 99], [97, 124, 98, 10, 10, 99]] =
        map (\<lambda>res. py_join [10, 10] (markdown_documents res)) (take 2 rs)"
    using full_text_joins_pages_with_blank_line
      [THEN conjunct2, THEN conjunct2, THEN conjunct1, rule_format,
       OF example_parse_multiple] by (simp add: numeral_2_eq_2)
  show "\<exists>rs. parser_aparse_batch example_env example_world
            (map path_str [Path (ascii ''a.pdf''), Path (ascii ''b.pdf'')]) = Inr rs \<and>
      [[97, 124, 98, 10, 10, 99], [97, 124, 98, 10, 10, 99]] =
        map (\<lambda>res. py_join [10, 10] (markdown_documents res)) (take 2 rs)"
    using full_text_joins_pages_with_blank_line
      [THEN conjunct2, THEN conjunct2, THEN conjunct2, rule_format,
       OF example_parse_multiple_async] by (simp add: numeral_2_eq_2)
qed

text \<open>
  C6. In each of the four parse variants, the page count of a parsed document is the
  number of page documents that the service returned for it; the page number that the
  service reports in its metadata (\<open>job_pages\<close>) is not read.
\<close>

theorem page_count_is_number_of_page_documents:
  "(parse_single_pdf e p w = (Inr d, w') \<longrightarrow>
      (\<exists>res. parser_parse e w (path_str p) = Inr res \<and>
             page_count d = length (markdown_documents res))) \<and>
   (parse_single_pdf_async e p w = (Inr d, w') \<longrightarrow>
      (\<exists>res. parser_aparse e w (path_str p) = Inr res \<and>
             page_count d = length (markdown_documents res))) \<and>
   (parse_multiple_pdfs e ps w = (Inr ds, w') \<longrightarrow>
      (\<exists>rs. parser_parse_batch e w (map path_str ps) = Inr rs \<and>
            map page_count ds =
              map (\<lambda>res. length (markdown_documents res)) (take (length ps) rs))) \<and>
   (parse_multiple_pdfs_async e ps w = (Inr ds, w') \<longrightarrow>
      (\<exists>rs. parser_aparse_batch e w (map path_str ps) = Inr rs \<and>
            map page_count ds =
              map (\<lambda>res. length (markdown_documents res)) (take (length ps) rs)))"
proof (intro conjI impI)
  assume "parse_single_pdf e p w = (Inr d, w')"
  from parse_single_pdf_Inr [OF this]
  show "\<exists>res. parser_parse e w (path_str p) = Inr res \<and>
             page_count d = length (markdown_documents res)" by auto
next
  assume "parse_single_pdf_async e p w = (Inr d, w')"
  from parse_single_pdf_async_Inr [OF this]
  show "\<exists>res. parser_aparse e w (path_str p) = Inr res \<and>
             page_count d = length (markdown_documents res)" by auto
next
  assume "parse_multiple_pdfs e ps w = (Inr ds, w')"
  from parse_multiple_pdfs_Inr [OF this]
  show "\<exists>rs. parser_parse_batch e w (map path_str ps) = Inr rs \<and>
            map page_count ds =
              map (\<lambda>res. length (markdown_documents res)) (take (length ps) rs)"
    by (auto simp: collect_parsed_page_count)
next
  assume "parse_multiple_pdfs_async e ps w = (Inr ds, w')"
  from parse_multiple_pdfs_async_Inr [OF this]
  show "\<exists>rs. parser_aparse_batch e w (map path_str ps) = Inr rs \<and>
            map page_count ds =
              map (\<lambda>res. length (markdown_documents res)) (take (length ps) rs)"
    by (auto simp: collect_parsed_page_count)
qed

theorem page_count_is_number_of_page_documents_witness:
  "(\<exists>res. parser_parse example_env example_world (path_str (Path (ascii ''a.pdf''))) = Inr res \<and>
      job_pages res = 7 \<and> 2 = length (markdown_documents res)) \<and>
   (\<exists>res. parser_aparse example_env example_world (path_str (Path (ascii ''a.pdf''))) = Inr res \<and>
      job_pages res = 7 \<and> 2 = length (markdown_documents res)) \<and>
   (\<exists>rs. parser_parse_batch example_env example_world
            (map path_str [Path (ascii ''a.pdf''), Path (ascii ''b.pdf'')]) = Inr rs \<and>
      map job_pages rs = [7, 7] \<and>
      [2, 2] = map (\<lambda>res. length (markdown_documents res)) (take 2 rs)) \<and>
   (\<exists>rs. parser_aparse_batch example_env example_world
            (map path_str [Path (ascii ''a.pdf''), Path (ascii ''b.pdf'')]) = Inr rs \<and>
      map job_pages rs = [7, 7] \<and>
      [2, 2] = map (\<lambda>res. length (markdown_documents res)) (take 2 rs))"
proof (intro conjI)
  show "\<exists>res. parser_parse example_env example_world (path_str (Path (ascii ''a.pdf''))) =
          Inr res \<and> job_pages res = 7 \<and> 2 = length (markdown_documents res)"
    using page_count_is_number_of_page_documents
      [THEN conjunct1, rule_format, OF example_parse_single]
    by (auto simp: example_simps)
  show "\<exists>res. parser_aparse example_env example_world (path_str (Path (ascii ''a.pdf''))) =
          Inr res \<and> job_pages res = 7 \<and> 2 = length (markdown_documents res)"
    using page_count_is_number_of_page_documents
      [THEN conjunct2, THEN conjunct1, rule_format, OF example_parse_single_async]
    by (auto simp: example_simps)
  show "\<exists>rs. parser_parse_batch example_env example_world
            (map path_str [Path (ascii ''a.pdf''), Path (ascii ''b.pdf'')]) = Inr rs \<and>
      map job_pages rs = [7, 7] \<and>
      [2, 2] = map (\<lambda>res. length (markdown_documents res)) (take 2 rs)"
    using page_count_is_number_of_page_documents
      [THEN conjunct2, THEN conjunct2, THEN conjunct1, rule_format,
       OF example_parse_multiple]
    by (auto simp: example_simps numeral_2_eq_2)
  show "\<exists>rs. parser_aparse_batch example_env example_world
            (map path_str [Path (ascii ''a.pdf''), Path (ascii ''b.pdf'')]) = Inr rs \<and>
      map job_pages rs = [7, 7] \<and>
      [2, 2] = map (\<lambda>res. length (markdown_documents res)) (take 2 rs)"
    using page_count_is_number_of_page_documents
      [THEN conjunct2, THEN conjunct2, THEN conjunct2, rule_format,
       OF example_parse_multiple_async]
    by (auto simp: example_simps numeral_2_eq_2)
qed

lemma verify_all_exist_missing:
  "p \<in> set ps \<Longrightarrow> \<not> path_exists w p \<Longrightarrow>
   \<exists>q. find (\<lambda>q. \<not> path_exists w q) ps = Some q \<and>
       verify_all_exist w ps =
         Inl (FileNotFoundError (ascii ''PDF file not found: '' @ path_str q))"
  by (induction ps) auto

text \<open>
  C7. When some path of a batch does not exist, both batch variants of the parser raise
  the not-found error that names the first path of the batch that does not exist (the
  missing path itself when it is the only one), and they leave the state as it was: no
  request has been made to the parsing service.
\<close>

theorem batch_missing_path_raises_before_any_remote_call:
  assumes "p \<in> set ps" and "\<not> path_exists w p"
  shows "\<exists>q. find (\<lambda>q. \<not> path_exists w q) ps = Some q \<and>
           parse_multiple_pdfs e ps w =
             (Inl (FileNotFoundError (ascii ''PDF file not found: '' @ path_str q)), w) \<and>
           parse_multiple_pdfs_async e ps w =
             (Inl (FileNotFoundError (ascii ''PDF file not found: '' @ path_str q)), w) \<and>
           parse_calls (snd (parse_multiple_pdfs e ps w)) = parse_calls w \<and>
           parse_calls (snd (parse_multiple_pdfs_async e ps w)) = parse_calls w"
proof -
  from verify_all_exist_missing [OF assms] obtain q where
    q: "find (\<lambda>q. \<not> path_exists w q) ps = Some q"
       "verify_all_exist w ps =
          Inl (FileNotFoundError (ascii ''PDF file not found: '' @ path_str q))"
    by blast
  then show ?thesis
    by (simp add: parse_multiple_pdfs_def parse_multiple_pdfs_async_def)
qed

theorem batch_missing_path_raises_before_any_remote_call_witness:
  "Path (ascii ''gone.pdf'') \<in>
     set [Path (ascii ''a.pdf''), Path (ascii ''missing.pdf''), Path (ascii ''gone.pdf'')] \<and>
   \<not> path_exists example_world (Path (ascii ''gone.pdf'')) \<and>
   parse_multiple_pdfs example_env
     [Path (ascii ''a.pdf''), Path (ascii ''missing.pdf''), Path (ascii ''gone.pdf'')]
     example_world =
     (Inl (FileNotFoundError (ascii ''PDF file not found: missing.pdf'')), example_world) \<and>
   parse_multiple_pdfs_async example_env
     [Path (ascii ''a.pdf''), Path (ascii ''missing.pdf''), Path (ascii ''gone.pdf'')]
     example_world =
     (Inl (FileNotFoundError (ascii ''PDF file not found: missing.pdf'')), example_world) \<and>
   parse_calls (snd (parse_multiple_pdfs example_env
     [Path (ascii ''a.pdf''), Path (ascii ''missing.pdf''), Path (ascii ''gone.pdf'')]
     example_world)) = []"
proof -
  let ?ps = "[Path (ascii ''a.pdf''), Path (ascii ''missing.pdf''), Path (ascii ''gone.pdf'')]"
  have m: "Path (ascii ''gone.pdf'') \<in> set ?ps" by simp
  have n: "\<not> path_exists example_world (Path (ascii ''gone.pdf''))"
    by (simp add: example_simps)
  have f: "find (\<lambda>q. \<not> path_exists example_world q) ?ps = Some (Path (ascii ''missing.pdf''))"
    by (simp add: example_simps)
  have s: "ascii ''PDF file not found: '' @ path_str (Path (ascii ''missing.pdf'')) =
           ascii ''PDF file not found: missing.pdf''"
    by (simp add: example_simps)
  have c: "parse_calls example_world = []" by (simp add: example_world_def)
  from batch_missing_path_raises_before_any_remote_call [OF m n, of example_env] f s c m n
  show ?thesis by auto
qed

section \<open>The language-model adapter\<close>

lemma save_natural_language_Inr:
  assumes "save_natural_language e pd od fn w = (Inr p, w')"
  shows "fs w' p = Some (File (output_content pd))"
  using assms
  by (auto simp: save_natural_language_def write_text_def mkdir_parents_def Let_def
      split: sum.splits option.splits node.splits)

lemma example_save_natural_language_fst:
  "fst (save_natural_language example_env example_nl_result None None example_world) =
     Inr \<lparr>is_absolute = True,
          parts = [ascii ''app'', ascii ''output'', ascii ''natural_language'',
                   ascii ''natural_language_output.txt'']\<rparr>"
  by (simp add: save_natural_language_def write_text_def mkdir_parents_def
      NATURAL_LANGUAGE_DIR_def OUTPUT_DIR_def path_join_def example_simps)

lemma example_save_natural_language:
  "save_natural_language example_env example_nl_result None None example_world =
     (Inr \<lparr>is_absolute = True,
           parts = [ascii ''app'', ascii ''output'', ascii ''natural_language'',
                    ascii ''natural_language_output.txt'']\<rparr>,
      snd (save_natural_language example_env example_nl_result None None example_world))"
  by (simp add: prod_eq_iff example_save_natural_language_fst)

lemma example_output_content:
  "output_content example_nl_result =
     [35, 32, 33258, 28982, 35328, 35486, 20966, 29702, 32080, 26524, 10] @
     ascii ''# Model: claude'' @ [10] @
     ascii ''# Prompt Type: general'' @ [10] @
     ascii ''# Input Tokens: 11'' @ [10] @
     ascii ''# Output Tokens: 22'' @ [10, 10] @
     ascii ''text'' @ [10]"
  by (simp add: output_content_def example_nl_result_def ascii_def str_int_def str_nat.simps)

text \<open>
  C8, as the specification states it, fails: the file that is written for the example
  result does not consist of four header lines followed by the body. Its first line is
  the title, which does not carry the model, and an empty line stands before the body.
\<close>

theorem four_line_header_counterexample:
  "fst (save_natural_language example_env example_nl_result None None example_world) =
     Inr \<lparr>is_absolute = True,
          parts = [ascii ''app'', ascii ''output'', ascii ''natural_language'',
                   ascii ''natural_language_output.txt'']\<rparr> \<and>
   fs (snd (save_natural_language example_env example_nl_result None None example_world))
     \<lparr>is_absolute = True,
      parts = [ascii ''app'', ascii ''output'', ascii ''natural_language'',
               ascii ''natural_language_output.txt'']\<rparr> =
     Some (File (output_content example_nl_result)) \<and>
   \<not> spec_four_line_header example_nl_result (output_content example_nl_result)"
proof -
  have "\<not> spec_four_line_header example_nl_result (output_content example_nl_result)"
    unfolding example_output_content
    by (simp add: spec_four_line_header_def example_nl_result_def ascii_def)
  with save_natural_language_Inr [OF example_save_natural_language]
    example_save_natural_language_fst
  show ?thesis by (intro conjI)
qed

text \<open>
  C8, amended. Every natural-language file that is written consists of the title line,
  then the four metadata lines \<open># Model: \<close>, \<open># Prompt Type: \<close>,
  \<open># Input Tokens: \<close> and \<open># Output Tokens: \<close> with their values, then an empty
  line, then the generated text and a final line feed.
\<close>

theorem natural_language_file_layout:
  assumes "save_natural_language e pd od fn w = (Inr p, w')"
  shows "fs w' p = Some (File (
           [35, 32, 33258, 28982, 35328, 35486, 20966, 29702, 32080, 26524] @ [10] @
           ascii ''# Model: '' @ model pd @ [10] @
           ascii ''# Prompt Type: '' @ prompt_type pd @ [10] @
           ascii ''# Input Tokens: '' @ str_int (input_tokens pd) @ [10] @
           ascii ''# Output Tokens: '' @ str_int (output_tokens pd) @ [10] @
           [10] @
           natural_language pd @ [10]))"
  using save_natural_language_Inr [OF assms] by (simp add: output_content_def)

theorem natural_language_file_layout_witness:
  "save_natural_language example_env example_nl_result None None example_world =
     (Inr \<lparr>is_absolute = True,
           parts = [ascii ''app'', ascii ''output'', ascii ''natural_language'',
                    ascii ''natural_language_output.txt'']\<rparr>,
      snd (save_natural_language example_env example_nl_result None None example_world)) \<and>
   fs (snd (save_natural_language example_env example_nl_result None None example_world))
     \<lparr>is_absolute = True,
      parts = [ascii ''app'', ascii ''output'', ascii ''natural_language'',
               ascii ''natural_language_output.txt'']\<rparr> =
     Some (File (
       [35, 32, 33258, 28982, 35328, 35486, 20966, 29702, 32080, 26524, 10] @
       ascii ''# Model: claude'' @ [10] @
       ascii ''# Prompt Type: general'' @ [10] @
       ascii ''# Input Tokens: 11'' @ [10] @
       ascii ''# Output Tokens: 22'' @ [10, 10] @
       ascii ''text'' @ [10]))"
proof -
  have "str_int 11 = ascii ''11''" "str_int 22 = ascii ''22''"
    by (simp_all add: str_int_def str_nat.simps ascii_def)
  with natural_language_file_layout [OF example_save_natural_language]
  have "fs (snd (save_natural_language example_env example_nl_result None None example_world))
     \<lparr>is_absolute = True,
      parts = [ascii ''app'', ascii ''output'', ascii ''natural_language'',
               ascii ''natural_language_output.txt'']\<rparr> =
     Some (File (
       [35, 32, 33258, 28982, 35328, 35486, 20966, 29702, 32080, 26524, 10] @
       ascii ''# Model: claude'' @ [10] @
       ascii ''# Prompt Type: general'' @ [10] @
       ascii ''# Input Tokens: 11'' @ [10] @
       ascii ''# Output Tokens: 22'' @ [10, 10] @
       ascii ''text'' @ [10]))"
    by (simp add: example_nl_result_def ascii_def)
  with example_save_natural_language show ?thesis by (intro conjI)
qed

section \<open>The command line\<close>









section \<open>The PDF files of a directory\<close>

lemma append_single_le:
  fixes a b :: "'a::linorder list"
  shows "xs @ [a] \<le> xs @ [b] \<longleftrightarrow> a \<le> b"
  by (induction xs) auto

lemma path_sort_key_child:
  "path_sort_key (d\<lparr>parts := parts d @ [name]\<rparr>) =
     ((if is_absolute d then [[]] else []) @ parts d) @ [name]"
  by (simp add: path_sort_key_def)

lemma path_name_child: "path_name (d\<lparr>parts := parts d @ [name]\<rparr>) = name"
  by (simp add: path_name_def)

lemma inj_on_key_children:
  "inj_on path_sort_key (set (map (\<lambda>name. d\<lparr>parts := parts d @ [name]\<rparr>) names))"
  by (auto simp: inj_on_def path_sort_key_child)

lemma sorted_children_names:
  assumes "set ps \<subseteq> range (\<lambda>name. d\<lparr>parts := parts d @ [name]\<rparr>)"
    and "sorted (map path_sort_key ps)"
  shows "sorted (map path_name ps)"
  using assms
proof (induction ps)
  case Nil
  then show ?case by simp
next
  case (Cons p ps)
  then obtain n where p: "p = d\<lparr>parts := parts d @ [n]\<rparr>" by auto
  have "path_name p \<le> path_name q" if "q \<in> set ps" for q
  proof -
    from that Cons.prems obtain m where q: "q = d\<lparr>parts := parts d @ [m]\<rparr>" by auto
    from that Cons.prems have "path_sort_key p \<le> path_sort_key q" by auto
    then show ?thesis
      unfolding p q path_sort_key_child path_name_child append_single_le .
  qed
  with Cons show ?case by auto
qed

text \<open>
  C10. \<open>get_all_pdfs_in_directory\<close> returns exactly the entries of the directory whose
  name ends with \<open>.pdf\<close>, each once per entry, sorted in ascending path order, which
  for the entries of one directory is the ascending order of the file names by code
  points; and the result is the same for every order in which the file system enumerates
  the entries.
\<close>

theorem pdfs_of_directory_sorted_by_name:
  "set (get_all_pdfs_in_directory scandir d) =
     {d\<lparr>parts := parts d @ [name]\<rparr> | name.
        name \<in> set (scandir d) \<and> (\<exists>stem. name = stem @ ascii ''.pdf'')} \<and>
   mset (get_all_pdfs_in_directory scandir d) =
     mset (map (\<lambda>name. d\<lparr>parts := parts d @ [name]\<rparr>)
            (filter fnmatch_star_pdf (scandir d))) \<and>
   sorted (map path_sort_key (get_all_pdfs_in_directory scandir d)) \<and>
   sorted (map path_name (get_all_pdfs_in_directory scandir d)) \<and>
   (mset (scandir d) = mset (scandir' d) \<longrightarrow>
      get_all_pdfs_in_directory scandir d = get_all_pdfs_in_directory scandir' d)"
proof (intro conjI impI)
  show "set (get_all_pdfs_in_directory scandir d) =
     {d\<lparr>parts := parts d @ [name]\<rparr> | name.
        name \<in> set (scandir d) \<and> (\<exists>stem. name = stem @ ascii ''.pdf'')}"
    by (auto simp: get_all_pdfs_in_directory_def glob_star_pdf_def fnmatch_star_pdf_def
        suffix_def)
  show "mset (get_all_pdfs_in_directory scandir d) =
     mset (map (\<lambda>name. d\<lparr>parts := parts d @ [name]\<rparr>)
            (filter fnmatch_star_pdf (scandir d)))"
    by (simp add: get_all_pdfs_in_directory_def glob_star_pdf_def)
  show s: "sorted (map path_sort_key (get_all_pdfs_in_directory scandir d))"
    by (simp add: get_all_pdfs_in_directory_def)
  have "set (get_all_pdfs_in_directory scandir d) \<subseteq>
          range (\<lambda>name. d\<lparr>parts := parts d @ [name]\<rparr>)"
    by (auto simp: get_all_pdfs_in_directory_def glob_star_pdf_def)
  from sorted_children_names [OF this s]
  show "sorted (map path_name (get_all_pdfs_in_directory scandir d))" .
next
  assume m: "mset (scandir d) = mset (scandir' d)"
  let ?c = "\<lambda>name. d\<lparr>parts := parts d @ [name]\<rparr>"
  have "mset (glob_star_pdf scandir d) = mset (glob_star_pdf scandir' d)"
    unfolding glob_star_pdf_def mset_map mset_filter m ..
  moreover have "inj_on path_sort_key (set (glob_star_pdf scandir d))"
    unfolding glob_star_pdf_def by (rule inj_on_key_children)
  moreover have "sorted (map path_sort_key (sort_key path_sort_key (glob_star_pdf scandir' d)))"
    by simp
  ultimately have "sort_key path_sort_key (glob_star_pdf scandir d) =
                   sort_key path_sort_key (glob_star_pdf scandir' d)"
    by (intro sort_key_inj_key_eq) simp_all
  then show "get_all_pdfs_in_directory scandir d = get_all_pdfs_in_directory scandir' d"
    by (simp add: get_all_pdfs_in_directory_def)
qed

lemma example_listing:
  "get_all_pdfs_in_directory
     (\<lambda>d. [ascii ''b.pdf'', ascii ''notes.txt'', ascii ''a.pdf'', ascii ''B.pdf''])
     (Path (ascii ''docs'')) =
   [\<lparr>is_absolute = False, parts = [ascii ''docs'', ascii ''B.pdf'']\<rparr>,
    \<lparr>is_absolute = False, parts = [ascii ''docs'', ascii ''a.pdf'']\<rparr>,
    \<lparr>is_absolute = False, parts = [ascii ''docs'', ascii ''b.pdf'']\<rparr>]"
  by (simp add: get_all_pdfs_in_directory_def glob_star_pdf_def fnmatch_star_pdf_def
      path_sort_key_def suffix_to_prefix Path_def ascii_def)

theorem pdfs_of_directory_sorted_by_name_witness:
  "mset [ascii ''b.pdf'', ascii ''notes.txt'', ascii ''a.pdf'', ascii ''B.pdf''] =
   mset [ascii ''a.pdf'', ascii ''B.pdf'', ascii ''b.pdf'', ascii ''notes.txt''] \<and>
   get_all_pdfs_in_directory
     (\<lambda>d. [ascii ''a.pdf'', ascii ''B.pdf'', ascii ''b.pdf'', ascii ''notes.txt''])
     (Path (ascii ''docs'')) =
   [\<lparr>is_absolute = False, parts = [ascii ''docs'', ascii ''B.pdf'']\<rparr>,
    \<lparr>is_absolute = False, parts = [ascii ''docs'', ascii ''a.pdf'']\<rparr>,
    \<lparr>is_absolute = False, parts = [ascii ''docs'', ascii ''b.pdf'']\<rparr>]"
proof -
  have m: "mset [ascii ''b.pdf'', ascii ''notes.txt'', ascii ''a.pdf'', ascii ''B.pdf''] =
           mset [ascii ''a.pdf'', ascii ''B.pdf'', ascii ''b.pdf'', ascii ''notes.txt'']"
    by (simp add: ascii_def)
  from pdfs_of_directory_sorted_by_name
    [of "\<lambda>d. [ascii ''b.pdf'', ascii ''notes.txt'', ascii ''a.pdf'', ascii ''B.pdf'']"
        "Path (ascii ''docs'')"
        "\<lambda>d. [ascii ''a.pdf'', ascii ''B.pdf'', ascii ''b.pdf'', ascii ''notes.txt'']"] m
  have "get_all_pdfs_in_directory
     (\<lambda>d. [ascii ''b.pdf'', ascii ''notes.txt'', ascii ''a.pdf'', ascii ''B.pdf''])
     (Path (ascii ''docs'')) =
     get_all_pdfs_in_directory
     (\<lambda>d. [ascii ''a.pdf'', ascii ''B.pdf'', ascii ''b.pdf'', ascii ''notes.txt''])
     (Path (ascii ''docs''))" by blast
  with m example_listing show ?thesis by simp
qed

section \<open>The pipeline\<close>

lemma convert_and_save_pdf_file:
  assumes "convert_and_save e p u m n parsed w = (Inr r, w')"
  shows "pdf_file r = path_name p"
  using assms unfolding convert_and_save_def
  by (auto split: if_splits prod.splits sum.splits)

lemma process_single_pdf_pdf_file:
  assumes "process_single_pdf e p u m n w = (Inr r, w')"
  shows "pdf_file r = path_name p"
  using assms unfolding process_single_pdf_def
  by (auto split: prod.splits sum.splits dest: convert_and_save_pdf_file)

lemma process_multiple_pdfs_loop_acc:
  "process_multiple_pdfs_loop e u m n ps acc w =
     (acc @ fst (process_multiple_pdfs_loop e u m n ps [] w),
      snd (process_multiple_pdfs_loop e u m n ps [] w))"
proof (induction ps arbitrary: acc w)
  case Nil
  then show ?case by simp
next
  case (Cons p ps)
  obtain out w1 where s: "process_single_pdf e p u m n w = (out, w1)" by force
  show ?case
  proof (cases out)
    case (Inl x)
    with s Cons [of "acc @ [Failure (path_name p) (str_exc x)]" w1]
      Cons [of "[Failure (path_name p) (str_exc x)]" w1]
    show ?thesis by simp
  next
    case (Inr r)
    with s Cons [of "acc @ [Success r]" w1] Cons [of "[Success r]" w1]
    show ?thesis by simp
  qed
qed

lemma process_multiple_pdfs_Nil: "process_multiple_pdfs e [] u m n w = ([], w)"
  by (simp add: process_multiple_pdfs_def)

lemma process_multiple_pdfs_Cons:
  "process_multiple_pdfs e (p # ps) u m n w =
     ((case fst (process_single_pdf e p u m n w) of
         Inl x \<Rightarrow> Failure (path_name p) (str_exc x)
       | Inr r \<Rightarrow> Success r) #
      fst (process_multiple_pdfs e ps u m n (snd (process_single_pdf e p u m n w))),
      snd (process_multiple_pdfs e ps u m n (snd (process_single_pdf e p u m n w))))"
proof -
  obtain out w1 where s: "process_single_pdf e p u m n w = (out, w1)" by force
  show ?thesis
  proof (cases out)
    case (Inl x)
    with s process_multiple_pdfs_loop_acc
      [of e u m n ps "[Failure (path_name p) (str_exc x)]" w1]
    show ?thesis by (simp add: process_multiple_pdfs_def)
  next
    case (Inr r)
    with s process_multiple_pdfs_loop_acc [of e u m n ps "[Success r]" w1]
    show ?thesis by (simp add: process_multiple_pdfs_def)
  qed
qed

lemma process_multiple_pdfs_append:
  "process_multiple_pdfs e (xs @ ys) u m n w =
     (fst (process_multiple_pdfs e xs u m n w) @
      fst (process_multiple_pdfs e ys u m n (snd (process_multiple_pdfs e xs u m n w))),
      snd (process_multiple_pdfs e ys u m n (snd (process_multiple_pdfs e xs u m n w))))"
  by (induction xs arbitrary: w)
     (simp_all add: process_multiple_pdfs_Nil process_multiple_pdfs_Cons)

lemma process_multiple_pdfs_length:
  "length (fst (process_multiple_pdfs e ps u m n w)) = length ps"
  by (induction ps arbitrary: w)
     (simp_all add: process_multiple_pdfs_Nil process_multiple_pdfs_Cons)

lemma process_multiple_pdfs_nth:
  assumes "k < length ps"
  shows "fst (process_multiple_pdfs e ps u m n w) ! k =
     (case fst (process_single_pdf e (ps ! k) u m n
                  (snd (process_multiple_pdfs e (take k ps) u m n w))) of
        Inl x \<Rightarrow> Failure (path_name (ps ! k)) (str_exc x)
      | Inr r \<Rightarrow> Success r)"
proof -
  have "ps = take k ps @ ps ! k # drop (Suc k) ps"
    using assms by (simp add: id_take_nth_drop)
  then have "fst (process_multiple_pdfs e ps u m n w) ! k =
    fst (process_multiple_pdfs e (take k ps @ ps ! k # drop (Suc k) ps) u m n w) ! k"
    by simp
  also have "\<dots> = (case fst (process_single_pdf e (ps ! k) u m n
                  (snd (process_multiple_pdfs e (take k ps) u m n w))) of
        Inl x \<Rightarrow> Failure (path_name (ps ! k)) (str_exc x)
      | Inr r \<Rightarrow> Success r)"
    using assms
    by (simp add: process_multiple_pdfs_append process_multiple_pdfs_Cons nth_append
        process_multiple_pdfs_length)
  finally show ?thesis .
qed

lemma process_multiple_pdfs_pdf_files:
  "map dict_pdf_file (fst (process_multiple_pdfs e ps u m n w)) = map path_name ps"
proof (induction ps arbitrary: w)
  case Nil
  then show ?case by (simp add: process_multiple_pdfs_Nil)
next
  case (Cons p ps)
  obtain out w1 where s: "process_single_pdf e p u m n w = (out, w1)" by force
  show ?case
  proof (cases out)
    case (Inl x)
    with s Cons show ?thesis by (simp add: process_multiple_pdfs_Cons)
  next
    case (Inr r)
    with s process_single_pdf_pdf_file have "pdf_file r = path_name p" by blast
    with Inr s Cons show ?thesis by (simp add: process_multiple_pdfs_Cons)
  qed
qed

lemma task_second_step_Done:
  "\<exists>r. fst (task_second_step e p u m n reply w) = Done r"
  by (auto simp: task_second_step_def Let_def split: sum.splits prod.splits)

lemma task_second_step_started:
  "fst (task_second_step e p u m n reply w) \<noteq> NotStarted"
  using task_second_step_Done [of e p u m n reply w] by auto

lemma task_inv_mono:
  assumes "task_inv e p u m n ws len t" and "len \<le> len'"
  shows "task_inv e p u m n ws len' t"
  using assms
proof (induction rule: task_inv.induct)
  case inv_not_started
  show ?case by (rule task_inv.inv_not_started)
next
  case (inv_awaiting ia reply)
  then show ?case by (intro task_inv.inv_awaiting [of ia]) simp_all
next
  case (inv_done ia ib)
  then show ?case by (intro task_inv.inv_done) simp_all
qed

lemma task_first_step_inv:
  "task_inv e p u m n ws len (fst (task_first_step e p (ws len)))"
proof (cases "path_exists (ws len) p")
  case True
  then have "fst (task_first_step e p (ws len)) =
               Awaiting (parser_aparse e (ws len) (path_str p))"
    by (simp add: task_first_step_def)
  then show ?thesis
    using task_inv.inv_awaiting [of len len e p ws _ u m n] by simp
next
  case False
  then have f: "fst (task_first_step e p (ws len)) =
      Done (Inl (FileNotFoundError (ascii ''PDF file not found: '' @ path_str p)))"
    by (simp add: task_first_step_def)
  then have "task_run e p u m n (ws len) (ws len) =
      Inl (FileNotFoundError (ascii ''PDF file not found: '' @ path_str p))"
    by (simp add: task_run_def)
  with f task_inv.inv_done [of len len len e p u m n ws] show ?thesis by simp
qed

lemma task_second_step_inv:
  assumes "task_inv e p u m n ws len (Awaiting reply)"
  shows "task_inv e p u m n ws len (fst (task_second_step e p u m n reply (ws len)))"
proof -
  from assms obtain ia where ia: "ia \<le> len"
    and a: "fst (task_first_step e p (ws ia)) = Awaiting reply"
    by (auto elim: task_inv.cases)
  obtain r where r: "fst (task_second_step e p u m n reply (ws len)) = Done r"
    using task_second_step_Done by blast
  with a have "task_run e p u m n (ws ia) (ws len) = r" by (simp add: task_run_def)
  with r ia task_inv.inv_done [of ia len len e p u m n ws] show ?thesis by simp
qed

lemma task_inv_Done_pdf_file:
  assumes "task_inv e p u m n ws len (Done (Inr d))"
  shows "pdf_file d = path_name p"
proof -
  from assms obtain wa wb where run: "task_run e p u m n wa wb = Inr d"
    by (auto elim: task_inv.cases)
  show ?thesis
  proof (cases "path_exists wa p")
    case False
    with run show ?thesis by (simp add: task_run_def task_first_step_def)
  next
    case True
    with run have s: "task_result (fst (task_second_step e p u m n
                        (parser_aparse e wa (path_str p)) wb)) = Inr d"
      by (simp add: task_run_def task_first_step_def)
    show ?thesis
    proof (cases "parser_aparse e wa (path_str p)")
      case (Inl x)
      with s show ?thesis by (simp add: task_second_step_def)
    next
      case (Inr res)
      with s show ?thesis
        by (auto simp: task_second_step_def Let_def split: prod.splits
            dest: convert_and_save_pdf_file)
    qed
  qed
qed

text \<open>One step of the event loop.\<close>

lemma run_task_step_length:
  "length (fst (run_task_step e ps u m n (ts, w) i)) = length ts"
  by (auto simp: run_task_step_def split: task.splits prod.splits)

lemma run_task_step_other:
  "j \<noteq> i \<Longrightarrow> fst (run_task_step e ps u m n (ts, w) i) ! j = ts ! j"
  by (auto simp: run_task_step_def split: task.splits prod.splits)

lemma run_task_step_self:
  assumes "i < length ts" and "i < length ps"
  shows "fst (run_task_step e ps u m n (ts, w) i) ! i =
     (case ts ! i of
        NotStarted \<Rightarrow> fst (task_first_step e (ps ! i) w)
      | Awaiting reply \<Rightarrow> fst (task_second_step e (ps ! i) u m n reply w)
      | Done r \<Rightarrow> Done r)"
  using assms by (auto simp: run_task_step_def split: task.splits prod.splits)

lemma run_task_step_inv:
  assumes "length ts = length ps"
    and "\<forall>j<length ps. task_inv e (ps ! j) u m n ws len (ts ! j)"
  shows "\<forall>j<length ps. task_inv e (ps ! j) u m n ws (Suc len)
           (fst (run_task_step e ps u m n (ts, ws len) i) ! j)"
proof (intro allI impI)
  fix j assume j: "j < length ps"
  have "task_inv e (ps ! j) u m n ws len (fst (run_task_step e ps u m n (ts, ws len) i) ! j)"
  proof (cases "j = i")
    case False
    with assms j show ?thesis by (simp add: run_task_step_other)
  next
    case True
    with j assms have inv: "task_inv e (ps ! i) u m n ws len (ts ! i)"
      and i: "i < length ts" "i < length ps"
      by auto
    show ?thesis
    proof (cases "ts ! i")
      case NotStarted
      with i True show ?thesis by (simp add: run_task_step_self task_first_step_inv)
    next
      case (Awaiting reply)
      with inv have "task_inv e (ps ! i) u m n ws len (Awaiting reply)" by simp
      from task_second_step_inv [OF this] Awaiting i True
      show ?thesis by (simp add: run_task_step_self)
    next
      case (Done r)
      with inv i True show ?thesis by (simp add: run_task_step_self)
    qed
  qed
  then show "task_inv e (ps ! j) u m n ws (Suc len)
               (fst (run_task_step e ps u m n (ts, ws len) i) ! j)"
    by (rule task_inv_mono) simp
qed

lemma event_loop_snoc:
  "event_loop e ps u m n (steps @ [i]) w =
     run_task_step e ps u m n (event_loop e ps u m n steps w) i"
  by (simp add: event_loop_def)

lemma event_loop_inv:
  assumes "k \<le> length steps"
  shows "length (fst (event_loop e ps u m n (take k steps) w)) = length ps \<and>
     (\<forall>j<length ps.
        task_inv e (ps ! j) u m n (\<lambda>i. snd (event_loop e ps u m n (take i steps) w)) k
          (fst (event_loop e ps u m n (take k steps) w) ! j))"
  using assms
proof (induction k)
  case 0
  show ?case by (simp add: event_loop_def task_inv.inv_not_started)
next
  case (Suc k)
  let ?ws = "\<lambda>i. snd (event_loop e ps u m n (take i steps) w)"
  let ?s = "event_loop e ps u m n (take k steps) w"
  from Suc have l: "length (fst ?s) = length ps"
    and v: "\<forall>j<length ps. task_inv e (ps ! j) u m n ?ws k (fst ?s ! j)"
    by simp_all
  from Suc.prems have "take (Suc k) steps = take k steps @ [steps ! k]"
    by (simp add: take_Suc_conv_app_nth)
  then have f: "event_loop e ps u m n (take (Suc k) steps) w =
                run_task_step e ps u m n ?s (steps ! k)"
    by (simp only: event_loop_snoc)
  have c: "(fst ?s, ?ws k) = ?s" by simp
  from run_task_step_inv [OF l v, of "steps ! k"]
  have "\<forall>j<length ps. task_inv e (ps ! j) u m n ?ws (Suc k)
          (fst (run_task_step e ps u m n ?s (steps ! k)) ! j)"
    unfolding c .
  moreover from run_task_step_length [of e ps u m n "fst ?s" "?ws k" "steps ! k"] l
  have "length (fst (run_task_step e ps u m n ?s (steps ! k))) = length ps"
    unfolding c by simp
  ultimately show ?case unfolding f by (intro conjI)
qed

text \<open>Progress: a pass over all tasks starts every task, and ends every started task.\<close>

lemma foldl_run_task_step_pass:
  assumes "length ts = length ps" and "k \<le> length ps"
  shows "length (fst (foldl (run_task_step e ps u m n) (ts, w) [0..<k])) = length ps \<and>
     (\<forall>j<length ps.
        (j < k \<longrightarrow> fst (foldl (run_task_step e ps u m n) (ts, w) [0..<k]) ! j \<noteq> NotStarted) \<and>
        (j < k \<longrightarrow> ts ! j \<noteq> NotStarted \<longrightarrow>
           (\<exists>r. fst (foldl (run_task_step e ps u m n) (ts, w) [0..<k]) ! j = Done r)) \<and>
        (k \<le> j \<longrightarrow> fst (foldl (run_task_step e ps u m n) (ts, w) [0..<k]) ! j = ts ! j))"
  using assms(2)
proof (induction k)
  case 0
  with assms(1) show ?case by simp
next
  case (Suc k)
  let ?s = "foldl (run_task_step e ps u m n) (ts, w) [0..<k]"
  obtain ts1 w1 where s: "?s = (ts1, w1)" by force
  from Suc have k: "k < length ps" by simp
  from Suc.IH s k have l1: "length ts1 = length ps"
    and old: "\<forall>j<length ps. (j < k \<longrightarrow> ts1 ! j \<noteq> NotStarted) \<and>
               (j < k \<longrightarrow> ts ! j \<noteq> NotStarted \<longrightarrow> (\<exists>r. ts1 ! j = Done r)) \<and>
               (k \<le> j \<longrightarrow> ts1 ! j = ts ! j)"
    by auto
  have f: "foldl (run_task_step e ps u m n) (ts, w) [0..<Suc k] =
           run_task_step e ps u m n (ts1, w1) k"
    using s by simp
  have self: "fst (run_task_step e ps u m n (ts1, w1) k) ! k =
     (case ts1 ! k of
        NotStarted \<Rightarrow> fst (task_first_step e (ps ! k) w1)
      | Awaiting reply \<Rightarrow> fst (task_second_step e (ps ! k) u m n reply w1)
      | Done r \<Rightarrow> Done r)"
    using k l1 by (simp add: run_task_step_self)
  have first: "fst (task_first_step e (ps ! k) w1) \<noteq> NotStarted"
    by (simp add: task_first_step_def)
  show ?case
  proof (intro conjI allI impI)
    show "length (fst (foldl (run_task_step e ps u m n) (ts, w) [0..<Suc k])) = length ps"
      unfolding f using l1 by (simp add: run_task_step_length)
  next
    fix j assume j: "j < length ps" "j < Suc k"
    show "fst (foldl (run_task_step e ps u m n) (ts, w) [0..<Suc k]) ! j \<noteq> NotStarted"
    proof (cases "j = k")
      case True
      show ?thesis unfolding f True self
        using first by (simp add: task_second_step_started split: task.splits)
    next
      case False
      with j old show ?thesis unfolding f by (simp add: run_task_step_other)
    qed
  next
    fix j assume j: "j < length ps" "j < Suc k" "ts ! j \<noteq> NotStarted"
    show "\<exists>r. fst (foldl (run_task_step e ps u m n) (ts, w) [0..<Suc k]) ! j = Done r"
    proof (cases "j = k")
      case True
      with old j have "ts1 ! k \<noteq> NotStarted" by auto
      then show ?thesis unfolding f True self
        using task_second_step_Done [of e "ps ! k" u m n _ w1]
        by (auto split: task.splits)
    next
      case False
      with j old show ?thesis unfolding f by (simp add: run_task_step_other)
    qed
  next
    fix j assume j: "j < length ps" "Suc k \<le> j"
    with old show "fst (foldl (run_task_step e ps u m n) (ts, w) [0..<Suc k]) ! j = ts ! j"
      unfolding f by (simp add: run_task_step_other)
  qed
qed

lemma gather_tasks_done:
  "length (fst (event_loop e ps u m n (gather_steps ps sched) w)) = length ps \<and>
   (\<forall>j<length ps. \<exists>r. fst (event_loop e ps u m n (gather_steps ps sched) w) ! j = Done r)"
proof -
  let ?step = "run_task_step e ps u m n"
  let ?n = "length ps"
  obtain ts0 w0 where s0: "event_loop e ps u m n sched w = (ts0, w0)" by force
  obtain ts1 w1 where s1: "foldl ?step (ts0, w0) [0..<?n] = (ts1, w1)" by force
  obtain ts2 w2 where s2: "foldl ?step (ts1, w1) [0..<?n] = (ts2, w2)" by force
  have fin: "event_loop e ps u m n (gather_steps ps sched) w = (ts2, w2)"
    using s0 s1 s2 by (simp add: event_loop_def gather_steps_def)
  from event_loop_inv [of "length sched" sched e ps u m n w] s0
  have l0: "length ts0 = ?n" by simp
  from foldl_run_task_step_pass [OF l0 order_refl, of e u m n w0] s1
  have l1: "length ts1 = ?n" and st: "\<forall>j<?n. ts1 ! j \<noteq> NotStarted" by simp_all
  from foldl_run_task_step_pass [OF l1 order_refl, of e u m n w1] s2 st
  have l2: "length ts2 = ?n" and dn: "\<forall>j<?n. \<exists>r. ts2 ! j = Done r" by simp_all
  show ?thesis unfolding fin using l2 dn by simp
qed

lemma asyncio_gather_length:
  "length (fst (asyncio_gather e ps u m n sched w)) = length ps"
  using gather_tasks_done [of e ps u m n sched w]
  by (simp add: asyncio_gather_def case_prod_beta)

lemma asyncio_gather_nth:
  assumes "j < length ps"
  shows "task_inv e (ps ! j) u m n
           (\<lambda>i. snd (event_loop e ps u m n (take i (gather_steps ps sched)) w))
           (length (gather_steps ps sched))
           (Done (fst (asyncio_gather e ps u m n sched w) ! j))"
proof -
  let ?steps = "gather_steps ps sched"
  from gather_tasks_done [of e ps u m n sched w] assms obtain r where
    l: "length (fst (event_loop e ps u m n ?steps w)) = length ps"
    and r: "fst (event_loop e ps u m n ?steps w) ! j = Done r"
    by blast
  from l r assms have g: "fst (asyncio_gather e ps u m n sched w) ! j = r"
    by (simp add: asyncio_gather_def case_prod_beta)
  from event_loop_inv [of "length ?steps" ?steps e ps u m n w] assms r
  have "task_inv e (ps ! j) u m n
          (\<lambda>i. snd (event_loop e ps u m n (take i ?steps) w)) (length ?steps) (Done r)"
    by auto
  with g show ?thesis by simp
qed

lemma processed_results_length:
  "length rs = length ps \<Longrightarrow> length (processed_results ps rs) = length ps"
  by (induction ps rs rule: processed_results.induct) simp_all

lemma processed_results_nth:
  "length rs = length ps \<Longrightarrow> j < length ps \<Longrightarrow>
   processed_results ps rs ! j =
     (case rs ! j of
        Inl x \<Rightarrow> Failure (path_name (ps ! j)) (str_exc x)
      | Inr d \<Rightarrow> Success d)"
proof (induction ps rs arbitrary: j rule: processed_results.induct)
  case (1 p ps r rs)
  then show ?case by (cases j) (auto split: sum.splits)
qed simp_all

lemma process_multiple_pdfs_async_length:
  "length (fst (process_multiple_pdfs_async e ps u m n sched w)) = length ps"
  using asyncio_gather_length [of e ps u m n sched w]
  by (simp add: process_multiple_pdfs_async_def processed_results_length case_prod_beta)

lemma process_multiple_pdfs_async_nth:
  assumes "j < length ps"
  shows "fst (process_multiple_pdfs_async e ps u m n sched w) ! j =
     (case fst (asyncio_gather e ps u m n sched w) ! j of
        Inl x \<Rightarrow> Failure (path_name (ps ! j)) (str_exc x)
      | Inr d \<Rightarrow> Success d)"
  using asyncio_gather_length [of e ps u m n sched w] assms
  by (simp add: process_multiple_pdfs_async_def processed_results_nth case_prod_beta)

lemma process_multiple_pdfs_async_pdf_files:
  "map dict_pdf_file (fst (process_multiple_pdfs_async e ps u m n sched w)) = map path_name ps"
proof (rule nth_equalityI)
  show "length (map dict_pdf_file (fst (process_multiple_pdfs_async e ps u m n sched w))) =
        length (map path_name ps)"
    by (simp add: process_multiple_pdfs_async_length)
next
  fix j assume "j < length (map dict_pdf_file
                   (fst (process_multiple_pdfs_async e ps u m n sched w)))"
  then have j: "j < length ps" by (simp add: process_multiple_pdfs_async_length)
  show "map dict_pdf_file (fst (process_multiple_pdfs_async e ps u m n sched w)) ! j =
        map path_name ps ! j"
  proof (cases "fst (asyncio_gather e ps u m n sched w) ! j")
    case (Inl x)
    with j show ?thesis
      by (simp add: process_multiple_pdfs_async_length process_multiple_pdfs_async_nth)
  next
    case (Inr d)
    with asyncio_gather_nth [OF j, of e u m n sched w]
    have "pdf_file d = path_name (ps ! j)" by (simp add: task_inv_Done_pdf_file)
    with Inr j show ?thesis
      by (simp add: process_multiple_pdfs_async_length process_multiple_pdfs_async_nth)
  qed
qed

lemmas pipeline_simps =
  process_multiple_pdfs_def process_single_pdf_def parse_single_pdf_def convert_and_save_def
  process_markdown_def get_prompt_for_data_def table_indicators_def CLAUDE_MAX_TOKENS_def

lemma example_sequential_batch:
  "fst (process_multiple_pdfs example_env
          [Path (ascii ''a.pdf''), Path (ascii ''bad.pdf''), Path (ascii ''b.pdf'')]
          None False False example_world) =
   [Success \<lparr>pdf_file = ascii ''a.pdf'', res_markdown = [97, 124, 98, 10, 10, 99],
             markdown_path = None, res_natural_language = ascii ''text'',
             natural_language_path = None, res_page_count = 2, res_model = ascii ''claude'',
             res_input_tokens = 11, res_output_tokens = 22\<rparr>,
    Failure (ascii ''bad.pdf'') (ascii ''boom''),
    Success \<lparr>pdf_file = ascii ''b.pdf'', res_markdown = [97, 124, 98, 10, 10, 99],
             markdown_path = None, res_natural_language = ascii ''text'',
             natural_language_path = None, res_page_count = 2, res_model = ascii ''claude'',
             res_input_tokens = 11, res_output_tokens = 22\<rparr>]"
  by (simp add: pipeline_simps example_simps)

lemmas async_simps =
  process_multiple_pdfs_async_def asyncio_gather_def event_loop_def gather_steps_def
  run_task_step_def task_first_step_def
  task_second_step_def convert_and_save_def process_markdown_def get_prompt_for_data_def
  table_indicators_def CLAUDE_MAX_TOKENS_def

lemma example_concurrent_batch:
  "fst (process_multiple_pdfs_async example_env
          [Path (ascii ''a.pdf''), Path (ascii ''bad.pdf''), Path (ascii ''b.pdf'')]
          None False False [2, 0, 2, 1] example_world) =
   [Success \<lparr>pdf_file = ascii ''a.pdf'', res_markdown = [97, 124, 98, 10, 10, 99],
             markdown_path = None, res_natural_language = ascii ''text'',
             natural_language_path = None, res_page_count = 2, res_model = ascii ''claude'',
             res_input_tokens = 11, res_output_tokens = 22\<rparr>,
    Failure (ascii ''bad.pdf'') (ascii ''boom''),
    Success \<lparr>pdf_file = ascii ''b.pdf'', res_markdown = [97, 124, 98, 10, 10, 99],
             markdown_path = None, res_natural_language = ascii ''text'',
             natural_language_path = None, res_page_count = 2, res_model = ascii ''claude'',
             res_input_tokens = 11, res_output_tokens = 22\<rparr>]"
  by (simp add: async_simps example_simps)

lemma process_single_pdf_async_as_task:
  "fst (process_single_pdf_async e p u m n w) =
     task_run e p u m n w (snd (task_first_step e p w))"
  by (auto simp: process_single_pdf_async_def parse_single_pdf_async_def task_run_def
      task_first_step_def task_second_step_def Let_def split: sum.splits prod.splits)

text \<open>
  C2. For every batch, every schedule of the concurrent path and every behaviour of the
  two services, the list that either batch path returns has the length of the input list,
  and the entry at each index carries the file name of the input path at that index:
  one entry per document, success or failure, paired by position.
\<close>

theorem batch_report_one_record_per_input_in_order:
  "length (fst (process_multiple_pdfs e ps u m n w)) = length ps \<and>
   map dict_pdf_file (fst (process_multiple_pdfs e ps u m n w)) = map path_name ps \<and>
   length (fst (process_multiple_pdfs_async e ps u m n sched w)) = length ps \<and>
   map dict_pdf_file (fst (process_multiple_pdfs_async e ps u m n sched w)) = map path_name ps"
  by (simp add: process_multiple_pdfs_length process_multiple_pdfs_pdf_files
      process_multiple_pdfs_async_length process_multiple_pdfs_async_pdf_files)

theorem batch_report_one_record_per_input_in_order_witness:
  "map dict_pdf_file
     (fst (process_multiple_pdfs example_env
             [Path (ascii ''a.pdf''), Path (ascii ''bad.pdf''), Path (ascii ''b.pdf'')]
             None False False example_world)) =
     [ascii ''a.pdf'', ascii ''bad.pdf'', ascii ''b.pdf''] \<and>
   map dict_pdf_file
     (fst (process_multiple_pdfs_async example_env
             [Path (ascii ''a.pdf''), Path (ascii ''bad.pdf''), Path (ascii ''b.pdf'')]
             None False False [2, 0, 2, 1] example_world)) =
     [ascii ''a.pdf'', ascii ''bad.pdf'', ascii ''b.pdf'']"
  using batch_report_one_record_per_input_in_order
    [of example_env "[Path (ascii ''a.pdf''), Path (ascii ''bad.pdf''), Path (ascii ''b.pdf'')]"
        None False False example_world "[2, 0, 2, 1]"]
  by (simp add: path_name_def Path_def ascii_def)

text \<open>
  C1. Neither batch path aborts: each returns one entry per document. In the sequential
  path the entry at index \<open>k\<close> is decided by the run of document \<open>k\<close> alone, in the
  state that the documents before it have left: a failure entry with the file name of
  the document and the message of the exception when its run raises, the dictionary of
  the document when its run goes through, whatever happened to the other documents. In
  the concurrent path, under every schedule, the entry at index \<open>k\<close> is decided in
  the same way by the two steps of task \<open>k\<close>, made in the states that the event loop
  had reached after some \<open>ia\<close> and some later \<open>ib\<close> of its steps.
\<close>

theorem batch_isolates_failing_document:
  assumes "k < length ps"
  shows "length (fst (process_multiple_pdfs e ps u m n w)) = length ps \<and>
     fst (process_multiple_pdfs e ps u m n w) ! k =
       (case fst (process_single_pdf e (ps ! k) u m n
                    (snd (process_multiple_pdfs e (take k ps) u m n w))) of
          Inl x \<Rightarrow> Failure (path_name (ps ! k)) (str_exc x)
        | Inr r \<Rightarrow> Success r) \<and>
     length (fst (process_multiple_pdfs_async e ps u m n sched w)) = length ps \<and>
     (\<exists>ia ib. ia \<le> ib \<and> ib \<le> length (gather_steps ps sched) \<and>
        fst (process_multiple_pdfs_async e ps u m n sched w) ! k =
          (case task_run e (ps ! k) u m n
                  (snd (event_loop e ps u m n (take ia (gather_steps ps sched)) w))
                  (snd (event_loop e ps u m n (take ib (gather_steps ps sched)) w)) of
             Inl x \<Rightarrow> Failure (path_name (ps ! k)) (str_exc x)
           | Inr r \<Rightarrow> Success r))"
proof -
  from asyncio_gather_nth [OF assms, of e u m n sched w]
  obtain ia ib where "ia \<le> ib" "ib \<le> length (gather_steps ps sched)"
    "fst (asyncio_gather e ps u m n sched w) ! k =
       task_run e (ps ! k) u m n
         (snd (event_loop e ps u m n (take ia (gather_steps ps sched)) w))
         (snd (event_loop e ps u m n (take ib (gather_steps ps sched)) w))"
    by (auto elim: task_inv.cases)
  with process_multiple_pdfs_async_nth [OF assms, of e u m n sched w]
  have "\<exists>ia ib. ia \<le> ib \<and> ib \<le> length (gather_steps ps sched) \<and>
        fst (process_multiple_pdfs_async e ps u m n sched w) ! k =
          (case task_run e (ps ! k) u m n
                  (snd (event_loop e ps u m n (take ia (gather_steps ps sched)) w))
                  (snd (event_loop e ps u m n (take ib (gather_steps ps sched)) w)) of
             Inl x \<Rightarrow> Failure (path_name (ps ! k)) (str_exc x)
           | Inr r \<Rightarrow> Success r)" by auto
  with process_multiple_pdfs_nth [OF assms, of e u m n w]
  show ?thesis
    by (simp add: process_multiple_pdfs_length process_multiple_pdfs_async_length)
qed

theorem batch_isolates_failing_document_witness:
  "(1::nat) < length [Path (ascii ''a.pdf''), Path (ascii ''bad.pdf''), Path (ascii ''b.pdf'')] \<and>
   Failure (ascii ''bad.pdf'') (ascii ''boom'') =
     (case fst (process_single_pdf example_env ([Path (ascii ''a.pdf''), Path (ascii ''bad.pdf''), Path (ascii ''b.pdf'')] ! 1) None False False
                  (snd (process_multiple_pdfs example_env (take 1 [Path (ascii ''a.pdf''), Path (ascii ''bad.pdf''), Path (ascii ''b.pdf'')])
                          None False False example_world))) of
        Inl x \<Rightarrow> Failure (path_name ([Path (ascii ''a.pdf''), Path (ascii ''bad.pdf''), Path (ascii ''b.pdf'')] ! 1)) (str_exc x)
      | Inr r \<Rightarrow> Success r) \<and>
   map has_error
     (fst (process_multiple_pdfs example_env [Path (ascii ''a.pdf''), Path (ascii ''bad.pdf''), Path (ascii ''b.pdf'')] None False False example_world)) =
     [False, True, False] \<and>
   (\<exists>ia ib. ia \<le> ib \<and> ib \<le> length (gather_steps [Path (ascii ''a.pdf''), Path (ascii ''bad.pdf''), Path (ascii ''b.pdf'')] [2, 0, 2, 1]) \<and>
      Failure (ascii ''bad.pdf'') (ascii ''boom'') =
        (case task_run example_env ([Path (ascii ''a.pdf''), Path (ascii ''bad.pdf''), Path (ascii ''b.pdf'')] ! 1) None False False
                (snd (event_loop example_env [Path (ascii ''a.pdf''), Path (ascii ''bad.pdf''), Path (ascii ''b.pdf'')] None False False
                        (take ia (gather_steps [Path (ascii ''a.pdf''), Path (ascii ''bad.pdf''), Path (ascii ''b.pdf'')] [2, 0, 2, 1])) example_world))
                (snd (event_loop example_env [Path (ascii ''a.pdf''), Path (ascii ''bad.pdf''), Path (ascii ''b.pdf'')] None False False
                        (take ib (gather_steps [Path (ascii ''a.pdf''), Path (ascii ''bad.pdf''), Path (ascii ''b.pdf'')] [2, 0, 2, 1])) example_world)) of
           Inl x \<Rightarrow> Failure (path_name ([Path (ascii ''a.pdf''), Path (ascii ''bad.pdf''), Path (ascii ''b.pdf'')] ! 1)) (str_exc x)
         | Inr r \<Rightarrow> Success r)) \<and>
   map has_error
     (fst (process_multiple_pdfs_async example_env [Path (ascii ''a.pdf''), Path (ascii ''bad.pdf''), Path (ascii ''b.pdf'')] None False False [2, 0, 2, 1]
             example_world)) = [False, True, False]"
proof -
  have h: "(1::nat) < length [Path (ascii ''a.pdf''), Path (ascii ''bad.pdf''), Path (ascii ''b.pdf'')]" by simp
  note t = batch_isolates_failing_document
    [OF h, of example_env None False False example_world "[2, 0, 2, 1]"]
  have s: "fst (process_multiple_pdfs example_env [Path (ascii ''a.pdf''), Path (ascii ''bad.pdf''), Path (ascii ''b.pdf'')] None False False example_world) ! 1 =
           Failure (ascii ''bad.pdf'') (ascii ''boom'')"
    unfolding example_sequential_batch by simp
  have a: "fst (process_multiple_pdfs_async example_env [Path (ascii ''a.pdf''), Path (ascii ''bad.pdf''), Path (ascii ''b.pdf'')] None False False [2, 0, 2, 1]
                  example_world) ! 1 = Failure (ascii ''bad.pdf'') (ascii ''boom'')"
    unfolding example_concurrent_batch by simp
  from t have c1: "Failure (ascii ''bad.pdf'') (ascii ''boom'') =
     (case fst (process_single_pdf example_env ([Path (ascii ''a.pdf''), Path (ascii ''bad.pdf''), Path (ascii ''b.pdf'')] ! 1) None False False
                  (snd (process_multiple_pdfs example_env (take 1 [Path (ascii ''a.pdf''), Path (ascii ''bad.pdf''), Path (ascii ''b.pdf'')])
                          None False False example_world))) of
        Inl x \<Rightarrow> Failure (path_name ([Path (ascii ''a.pdf''), Path (ascii ''bad.pdf''), Path (ascii ''b.pdf'')] ! 1)) (str_exc x)
      | Inr r \<Rightarrow> Success r)"
    unfolding s by blast
  from t have c2: "\<exists>ia ib. ia \<le> ib \<and> ib \<le> length (gather_steps [Path (ascii ''a.pdf''), Path (ascii ''bad.pdf''), Path (ascii ''b.pdf'')] [2, 0, 2, 1]) \<and>
      Failure (ascii ''bad.pdf'') (ascii ''boom'') =
        (case task_run example_env ([Path (ascii ''a.pdf''), Path (ascii ''bad.pdf''), Path (ascii ''b.pdf'')] ! 1) None False False
                (snd (event_loop example_env [Path (ascii ''a.pdf''), Path (ascii ''bad.pdf''), Path (ascii ''b.pdf'')] None False False
                        (take ia (gather_steps [Path (ascii ''a.pdf''), Path (ascii ''bad.pdf''), Path (ascii ''b.pdf'')] [2, 0, 2, 1])) example_world))
                (snd (event_loop example_env [Path (ascii ''a.pdf''), Path (ascii ''bad.pdf''), Path (ascii ''b.pdf'')] None False False
                        (take ib (gather_steps [Path (ascii ''a.pdf''), Path (ascii ''bad.pdf''), Path (ascii ''b.pdf'')] [2, 0, 2, 1])) example_world)) of
           Inl x \<Rightarrow> Failure (path_name ([Path (ascii ''a.pdf''), Path (ascii ''bad.pdf''), Path (ascii ''b.pdf'')] ! 1)) (str_exc x)
         | Inr r \<Rightarrow> Success r)"
    unfolding a by blast
  have m1: "map has_error
     (fst (process_multiple_pdfs example_env [Path (ascii ''a.pdf''), Path (ascii ''bad.pdf''), Path (ascii ''b.pdf'')] None False False example_world)) =
       [False, True, False]"
    unfolding example_sequential_batch by simp
  have m2: "map has_error
     (fst (process_multiple_pdfs_async example_env [Path (ascii ''a.pdf''), Path (ascii ''bad.pdf''), Path (ascii ''b.pdf'')] None False False [2, 0, 2, 1]
             example_world)) = [False, True, False]"
    unfolding example_concurrent_batch by simp
  from h c1 m1 c2 m2 show ?thesis by (intro conjI)
qed

end
